theory Spec2Isabelle
  imports Main "HOL-Library.Sublist" "HOL-Library.Multiset"
    "HOL-Library.Char_ord" "HOL-Library.List_Lexorder"
begin

section \<open>Basic values\<close>

text \<open>
  Go strings are byte strings compared bytewise; \<open>string\<close> with the lexicographic order
  on \<open>char\<close> codes is the same order as \<open>strings.Compare\<close>. A \<open>*string\<close> or \<open>*int64\<close>
  is an \<open>option\<close> (\<open>None\<close> is \<open>nil\<close>); a slice that the code tests against \<open>nil\<close> is a
  \<open>list option\<close>.
\<close>

text \<open>\<open>resources.ObjectName\<close>: namespace and name; \<open>String()\<close> joins them with a slash.\<close>

record ObjectName =
  Namespace :: string
  Name :: string

definition ObjectName_String :: "ObjectName \<Rightarrow> string" where
  "ObjectName_String n = Namespace n @ ''/'' @ Name n"

text \<open>\<open>strings.Join\<close>.\<close>

fun Join :: "string list \<Rightarrow> string \<Rightarrow> string" where
  "Join [] sep = []"
| "Join [x] sep = x"
| "Join (x # y # ys) sep = x @ sep @ Join (y # ys) sep"

text \<open>\<open>utils.StringValue\<close>, \<open>utils.IsEmptyString\<close>, \<open>utils.Int64Value\<close> on pointers.\<close>

definition StringValue :: "string option \<Rightarrow> string" where
  "StringValue s = (case s of None \<Rightarrow> [] | Some v \<Rightarrow> v)"

definition IsEmptyString :: "string option \<Rightarrow> bool" where
  "IsEmptyString s = (case s of None \<Rightarrow> True | Some v \<Rightarrow> v = [])"

definition Int64Value :: "int option \<Rightarrow> int \<Rightarrow> int" where
  "Int64Value v d = (case v of None \<Rightarrow> d | Some x \<Rightarrow> x)"

section \<open>Providers and the entry premise\<close>

text \<open>
  \<open>DNSProvider\<close> is an interface holding a pointer; two premises name the same provider
  when the pointers are equal. A provider reference is therefore an address, and what the
  methods \<open>ObjectName()\<close>, \<open>DefaultTTL()\<close> and \<open>IsValid()\<close> answer is read from a table of
  the provider objects. \<open>None\<close> is the nil interface.
\<close>

type_synonym DNSProvider = nat

record provider_obj =
  p_ObjectName :: ObjectName
  p_DefaultTTL :: int
  p_IsValid :: bool

type_synonym providers = "DNSProvider \<Rightarrow> provider_obj"

record EntryPremise =
  ptypes :: "string set"
  ptype :: string
  provider :: "DNSProvider option"
  fallback :: "DNSProvider option"
  zoneid :: string
  zonedomain :: string

definition Provider :: "providers \<Rightarrow> DNSProvider option \<Rightarrow> string" where
  "Provider ps p = (case p of None \<Rightarrow> ''<none>''
                    | Some a \<Rightarrow> ObjectName_String (p_ObjectName (ps a)))"

definition Match :: "EntryPremise \<Rightarrow> EntryPremise \<Rightarrow> bool" where
  "Match this p \<longleftrightarrow>
     ptype this = ptype p \<and> provider this = provider p \<and>
     zoneid this = zoneid p \<and> fallback this = fallback p"

text \<open>The slice \<open>r\<close> that \<open>NotifyChange\<close> builds, one append after the other.\<close>

definition NotifyChange_r :: "providers \<Rightarrow> EntryPremise \<Rightarrow> EntryPremise \<Rightarrow> string list" where
  "NotifyChange_r ps this p =
    (let r = [];
         r = (if ptype this \<noteq> ptype p
              then r @ [''provider type ('' @ ptype this @ '' -> '' @ ptype p @ '')'']
              else r);
         r = (if provider this \<noteq> provider p
              then r @ [''provider ('' @ Provider ps (provider this) @ '' -> ''
                          @ Provider ps (provider p) @ '')'']
              else r);
         r = (if zoneid this \<noteq> zoneid p
              then r @ [''zone ('' @ zoneid this @ '' -> '' @ zoneid p @ '')'']
              else r);
         r = (if fallback this \<noteq> fallback p
              then r @ [''fallback ('' @ Provider ps (fallback this) @ '' -> ''
                          @ Provider ps (fallback p) @ '')'']
              else r)
     in r)"

definition NotifyChange :: "providers \<Rightarrow> EntryPremise \<Rightarrow> EntryPremise \<Rightarrow> string" where
  "NotifyChange ps this p =
    (let r = NotifyChange_r ps this p
     in if length r = 0 then [] else ''premise changed: '' @ Join r '', '')"

section \<open>Premise comparison\<close>

lemma NotifyChange_r_Nil: "NotifyChange_r ps a b = [] \<longleftrightarrow> Match a b"
  by (auto simp: NotifyChange_r_def Match_def Let_def)

lemma NotifyChange_empty_iff: "NotifyChange ps a b = [] \<longleftrightarrow> Match a b"
  by (simp add: NotifyChange_def Let_def NotifyChange_r_Nil)

lemma NotifyChange_r_ptype:
  "(\<exists>s \<in> set (NotifyChange_r ps a b). prefix ''provider type ('' s) \<longleftrightarrow> ptype a \<noteq> ptype b"
  by (auto simp: NotifyChange_r_def Let_def)

lemma NotifyChange_r_provider:
  "(\<exists>s \<in> set (NotifyChange_r ps a b). prefix ''provider ('' s) \<longleftrightarrow> provider a \<noteq> provider b"
  by (auto simp: NotifyChange_r_def Let_def)

lemma NotifyChange_r_zoneid:
  "(\<exists>s \<in> set (NotifyChange_r ps a b). prefix ''zone ('' s) \<longleftrightarrow> zoneid a \<noteq> zoneid b"
  by (auto simp: NotifyChange_r_def Let_def)

lemma NotifyChange_r_fallback:
  "(\<exists>s \<in> set (NotifyChange_r ps a b). prefix ''fallback ('' s) \<longleftrightarrow> fallback a \<noteq> fallback b"
  by (auto simp: NotifyChange_r_def Let_def)

lemma NotifyChange_r_length:
  "length (NotifyChange_r ps a b) =
     (if ptype a \<noteq> ptype b then 1 else 0) + (if provider a \<noteq> provider b then 1 else 0) +
     (if zoneid a \<noteq> zoneid b then 1 else 0) + (if fallback a \<noteq> fallback b then 1 else 0)"
  by (simp add: NotifyChange_r_def Let_def)

lemma NotifyChange_r_zonedomain:
  "NotifyChange_r ps (a\<lparr>zonedomain := z\<rparr>) (b\<lparr>zonedomain := z'\<rparr>) = NotifyChange_r ps a b"
  by (simp add: NotifyChange_r_def)

text \<open>
  C8. \<open>NotifyChange\<close> returns the empty string exactly when \<open>Match\<close> holds. Otherwise it is
  the prefix "premise changed: " followed by the fragments joined with ", ", and there is a
  fragment for a field (recognised by its label) exactly when that field differs between
  the two premises, for the four fields provider type, provider, zone id and fallback, and
  no other fragment. The zone domain takes no part: replacing it on either side changes
  neither \<open>Match\<close> nor \<open>NotifyChange\<close>.
\<close>

theorem C8_NotifyChange_Match:
  "(NotifyChange ps a b = [] \<longleftrightarrow> Match a b) \<and>
   (\<not> Match a b \<longrightarrow>
      NotifyChange ps a b = ''premise changed: '' @ Join (NotifyChange_r ps a b) '', '') \<and>
   ((\<exists>s \<in> set (NotifyChange_r ps a b). prefix ''provider type ('' s) \<longleftrightarrow> ptype a \<noteq> ptype b) \<and>
   ((\<exists>s \<in> set (NotifyChange_r ps a b). prefix ''provider ('' s) \<longleftrightarrow> provider a \<noteq> provider b) \<and>
   ((\<exists>s \<in> set (NotifyChange_r ps a b). prefix ''zone ('' s) \<longleftrightarrow> zoneid a \<noteq> zoneid b) \<and>
   ((\<exists>s \<in> set (NotifyChange_r ps a b). prefix ''fallback ('' s) \<longleftrightarrow> fallback a \<noteq> fallback b) \<and>
   length (NotifyChange_r ps a b) =
     (if ptype a \<noteq> ptype b then 1 else 0) + (if provider a \<noteq> provider b then 1 else 0) +
     (if zoneid a \<noteq> zoneid b then 1 else 0) + (if fallback a \<noteq> fallback b then 1 else 0) \<and>
   Match (a\<lparr>zonedomain := z\<rparr>) (b\<lparr>zonedomain := z'\<rparr>) = Match a b \<and>
   NotifyChange ps (a\<lparr>zonedomain := z\<rparr>) (b\<lparr>zonedomain := z'\<rparr>) = NotifyChange ps a b"
proof -
  have "\<not> Match a b \<longrightarrow>
      NotifyChange ps a b = ''premise changed: '' @ Join (NotifyChange_r ps a b) '', ''"
    using NotifyChange_r_Nil [of ps a b] by (simp add: NotifyChange_def Let_def)
  moreover have "Match (a\<lparr>zonedomain := z\<rparr>) (b\<lparr>zonedomain := z'\<rparr>) = Match a b"
    by (simp add: Match_def)
  moreover have
    "NotifyChange ps (a\<lparr>zonedomain := z\<rparr>) (b\<lparr>zonedomain := z'\<rparr>) = NotifyChange ps a b"
    by (simp add: NotifyChange_def NotifyChange_r_zonedomain)
  ultimately show ?thesis
    using NotifyChange_empty_iff [of ps a b] NotifyChange_r_ptype [of ps a b]
      NotifyChange_r_provider [of ps a b] NotifyChange_r_zoneid [of ps a b]
      NotifyChange_r_fallback [of ps a b] NotifyChange_r_length [of ps a b]
    by blast
qed

definition premise_a :: EntryPremise where
  "premise_a = \<lparr>ptypes = {''aws-route53''}, ptype = ''aws-route53'', provider = Some 1,
     fallback = None, zoneid = ''Z1'', zonedomain = ''example.com''\<rparr>"

definition premise_b :: EntryPremise where
  "premise_b = \<lparr>ptypes = {''aws-route53''}, ptype = ''aws-route53'', provider = Some 1,
     fallback = None, zoneid = ''Z2'', zonedomain = ''example.org''\<rparr>"

definition providers0 :: providers where
  "providers0 = (\<lambda>a. \<lparr>p_ObjectName = \<lparr>Namespace = ''default'', Name = ''prov''\<rparr>,
     p_DefaultTTL = 300, p_IsValid = (a = 1)\<rparr>)"

theorem C8_NotifyChange_Match_witness:
  "\<not> Match premise_a premise_b \<and>
   NotifyChange providers0 premise_a premise_b = ''premise changed: zone (Z1 -> Z2)'' \<and>
   Match premise_a (premise_b\<lparr>zoneid := ''Z1''\<rparr>) \<and>
   NotifyChange providers0 premise_a (premise_b\<lparr>zoneid := ''Z1''\<rparr>) = []"
  using C8_NotifyChange_Match [of providers0 premise_a premise_b "''example.com''" "''example.org''"]
    C8_NotifyChange_Match [of providers0 premise_a "premise_b\<lparr>zoneid := ''Z1''\<rparr>"
      "''example.com''" "''example.org''"]
  by (simp add: premise_a_def premise_b_def Match_def NotifyChange_r_def)

section \<open>Targets, objects and specifications\<close>

datatype RecordType = RS_A | RS_AAAA | RS_CNAME | RS_TXT

text \<open>A \<open>dnsutils.Target\<close>: record kind, host (or address, or text) and TTL.\<close>

record Target =
  GetRecordType :: RecordType
  GetHostName :: string
  Target_TTL :: int

type_synonym Targets = "Target list"

definition NewTarget :: "RecordType \<Rightarrow> string \<Rightarrow> int \<Rightarrow> Target" where
  "NewTarget ty host ttl = \<lparr>GetRecordType = ty, GetHostName = host, Target_TTL = ttl\<rparr>"

text \<open>An event emitted on an object: type, reason, message.\<close>

type_synonym event = "string \<times> string \<times> string"

text \<open>
  \<open>api.DNSBaseStatus\<close>. Times are integers (nanoseconds), as \<open>time.Time\<close> and
  \<open>time.Duration\<close> count them.
\<close>

record DNSBaseStatus =
  st_ObservedGeneration :: int
  st_State :: string
  st_Message :: "string option"
  st_LastUptimeTime :: "int option"
  st_ProviderType :: "string option"
  st_Provider :: "string option"
  st_Zone :: "string option"
  st_TTL :: "int option"

record EntryReference =
  ref_Namespace :: string
  ref_Name :: string

text \<open>
  The object behind an entry (a \<open>DNSEntry\<close> or \<open>DNSLock\<close> resource as the controller holds
  it): metadata, the specification, the status with the acknowledged targets of the entry
  status, and the events emitted on it. \<open>o_Finalizer\<close> says whether the controller's
  finalizer is set. \<open>o_ValidateSpecial\<close> is what the object's own \<open>ValidateSpecial()\<close>
  answers.
\<close>

record DNSObject =
  o_Cluster :: string
  o_Kind :: string
  o_ObjectName :: ObjectName
  o_Generation :: int
  o_CreationTimestamp :: int
  o_IsDeleting :: bool
  o_Finalizer :: bool
  o_RefreshTime :: int
  o_ValidateSpecial :: "string option"
  o_DNSName :: string
  o_Reference :: "EntryReference option"
  o_Targets :: "string list option"
  o_Text :: "string list option"
  o_TTL :: "int option"
  o_OwnerId :: "string option"
  o_CNameLookupInterval :: "int option"
  o_Status :: DNSBaseStatus
  o_StatusTargets :: "string list option"
  o_Events :: "event list"

text \<open>
  The interface \<open>dnsutils.DNSSpecification\<close> has two implementations here: the object
  itself, and a \<open>dnsSpecModification\<close> that wraps a specification and carries the
  overrides \<open>targets\<close>, \<open>text\<close>, \<open>ttl\<close>, \<open>ownerid\<close> and \<open>lookup\<close> (in this order).
\<close>

datatype DNSSpecification =
    DNSEntryObject DNSObject
  | dnsSpecModification DNSSpecification "string list option" "string list option"
      "int option" "string option" "int option"

text \<open>Methods that \<open>dnsSpecModification\<close> does not define are promoted from the wrapped value.\<close>

fun GetReference :: "DNSSpecification \<Rightarrow> EntryReference option" where
  "GetReference (DNSEntryObject obj) = o_Reference obj"
| "GetReference (dnsSpecModification w targets text ttl ownerid lookup) = GetReference w"

fun GetTargets :: "DNSSpecification \<Rightarrow> string list option" where
  "GetTargets (DNSEntryObject obj) = o_Targets obj"
| "GetTargets (dnsSpecModification w targets text ttl ownerid lookup) =
     (if targets \<noteq> None then targets else GetTargets w)"

fun GetText :: "DNSSpecification \<Rightarrow> string list option" where
  "GetText (DNSEntryObject obj) = o_Text obj"
| "GetText (dnsSpecModification w targets text ttl ownerid lookup) =
     (if text \<noteq> None then text else GetText w)"

text \<open>
  \<open>GetOwnerId\<close>, \<open>GetCNameLookupInterval\<close> and \<open>GetTTL\<close> of a \<open>dnsSpecModification\<close> return
  the override when it is set and otherwise call the same method on the same receiver
  (\<open>return this.GetOwnerId()\<close>), not the wrapped specification's. The call never returns;
  \<open>None\<close> is that outcome, \<open>Some v\<close> the returned pointer \<open>v\<close>.
\<close>

partial_function (option) GetOwnerId :: "DNSSpecification \<Rightarrow> string option option" where
  "GetOwnerId this =
     (case this of
        DNSEntryObject obj \<Rightarrow> Some (o_OwnerId obj)
      | dnsSpecModification w targets text ttl ownerid lookup \<Rightarrow>
          (if ownerid \<noteq> None then Some ownerid else GetOwnerId this))"

partial_function (option) GetCNameLookupInterval :: "DNSSpecification \<Rightarrow> int option option" where
  "GetCNameLookupInterval this =
     (case this of
        DNSEntryObject obj \<Rightarrow> Some (o_CNameLookupInterval obj)
      | dnsSpecModification w targets text ttl ownerid lookup \<Rightarrow>
          (if lookup \<noteq> None then Some lookup else GetCNameLookupInterval this))"

partial_function (option) GetTTL :: "DNSSpecification \<Rightarrow> int option option" where
  "GetTTL this =
     (case this of
        DNSEntryObject obj \<Rightarrow> Some (o_TTL obj)
      | dnsSpecModification w targets text ttl ownerid lookup \<Rightarrow>
          (if ttl \<noteq> None then Some ttl else GetTTL this))"

definition IsModified :: "DNSSpecification \<Rightarrow> bool" where
  "IsModified this =
     (case this of
        DNSEntryObject obj \<Rightarrow> False
      | dnsSpecModification w targets text ttl ownerid lookup \<Rightarrow>
          targets \<noteq> None \<or> text \<noteq> None \<or> ownerid \<noteq> None \<or> lookup \<noteq> None \<or> ttl \<noteq> None)"

section \<open>Entry versions and entries\<close>

record EntryVersion =
  object :: DNSObject
  providername :: "ObjectName option"
  dnsname :: string
  targets :: Targets
  mappings :: "(string \<times> string list) list"
  warnings :: "string list"
  status :: DNSBaseStatus
  interval :: int
  responsible :: bool
  valid :: bool
  duplicate :: bool
  obsolete :: bool

text \<open>
  An \<open>Entry\<close> embeds a pointer to its current \<open>EntryVersion\<close>. Its lock is a pointer to a
  \<open>TryLock\<close>, here the lock's address. The pointer to the controller state, the same for
  every entry, is left out.
\<close>

record Entry =
  lock :: nat
  key :: string
  createdAt :: int
  modified :: bool
  updateRequired :: bool
  activezone :: string
  EntryVersion :: EntryVersion

text \<open>Constants of the API package, with the values the persisted status carries.\<close>

definition STATE_PENDING :: string where "STATE_PENDING = ''Pending''"
definition STATE_ERROR :: string where "STATE_ERROR = ''Error''"
definition STATE_INVALID :: string where "STATE_INVALID = ''Invalid''"
definition STATE_STALE :: string where "STATE_STALE = ''Stale''"
definition STATE_READY :: string where "STATE_READY = ''Ready''"
definition STATE_DELETING :: string where "STATE_DELETING = ''Deleting''"
definition DNSLockKind :: string where "DNSLockKind = ''DNSLock''"
definition MSG_PRESERVED :: string where
  "MSG_PRESERVED = ''errorneous entry preserved in provider''"

lemmas STATE_defs = STATE_PENDING_def STATE_ERROR_def STATE_INVALID_def STATE_STALE_def
  STATE_READY_def STATE_DELETING_def

definition NewEntryVersion :: "DNSObject \<Rightarrow> Entry option \<Rightarrow> EntryVersion" where
  "NewEntryVersion obj old =
     \<lparr>object = obj, providername = None, dnsname = o_DNSName obj, targets = [],
      mappings = [], warnings = [],
      status = (case old of Some e \<Rightarrow> status (EntryVersion e) | None \<Rightarrow> o_Status obj),
      interval = 0, responsible = False, valid = False, duplicate = False, obsolete = False\<rparr>"

definition Kind :: "EntryVersion \<Rightarrow> string" where
  "Kind this = o_Kind (object this)"

definition IsValid :: "EntryVersion \<Rightarrow> bool" where
  "IsValid this = valid this"

definition IsDeleting :: "EntryVersion \<Rightarrow> bool" where
  "IsDeleting this = o_IsDeleting (object this)"

definition ZoneId :: "EntryVersion \<Rightarrow> string" where
  "ZoneId this = StringValue (st_Zone (status this))"

definition State :: "EntryVersion \<Rightarrow> string" where
  "State this = st_State (status this)"

definition ObjectName_of :: "EntryVersion \<Rightarrow> ObjectName" where
  "ObjectName_of this = o_ObjectName (object this)"

text \<open>\<open>ZonedDNSName\<close> is a struct of zone id and DNS name, compared field by field.\<close>

definition ZonedDNSName :: "EntryVersion \<Rightarrow> string \<times> string" where
  "ZonedDNSName this = (ZoneId this, dnsname this)"

definition TTL :: "EntryVersion \<Rightarrow> int" where
  "TTL this = Int64Value (st_TTL (status this)) 0"

definition OwnerId :: "EntryVersion \<Rightarrow> string" where
  "OwnerId this = (case o_OwnerId (object this) of Some v \<Rightarrow> v | None \<Rightarrow> [])"

section \<open>The controller state and its collaborators\<close>

text \<open>An address as \<open>net.LookupIP\<close> and \<open>net.ParseIP\<close> give it, with its \<open>String()\<close>:
  \<open>To4()\<close> is not nil for \<open>IPv4\<close>, \<open>To16()\<close> is not nil for \<open>IPv4\<close> and \<open>IPv6\<close>.\<close>

datatype IP = IPv4 string | IPv6 string | OtherIP string

datatype get_error = NotFound | OtherError string

record ClusterObjectKey =
  ck_Cluster :: string
  ck_Kind :: string
  ck_Name :: ObjectName

text \<open>
  What a reconciliation reads from outside and the controller state it changes: the
  provider objects, the clock, domain-name validation, the resolver, the object cache,
  the access check (with the realms of the state), the owner cache, the reference index,
  and \<open>write_errors\<close>, the outcomes of the coming writes to the object store in order
  (\<open>Some e\<close> is a write that fails with \<open>e\<close>; when the list is used up, writes succeed).
\<close>

record state =
  providers_of :: providers
  time_Now :: int
  ValidateDomainName :: "string \<Rightarrow> string option"
  net_ParseIP :: "string \<Rightarrow> IP option"
  net_LookupIP :: "string \<Rightarrow> string + IP list"
  GetCached :: "ObjectName \<Rightarrow> get_error + DNSObject"
  CheckAccessWithRealms :: "DNSObject \<Rightarrow> DNSObject \<Rightarrow> string option"
  IsResponsibleFor :: "string \<Rightarrow> bool"
  IsResponsiblePendingFor :: "string \<Rightarrow> bool"
  references :: "ClusterObjectKey \<rightharpoonup> ClusterObjectKey"
  write_errors :: "string option list"

record Config =
  RescheduleDelay :: int

definition ClusterKey :: "DNSObject \<Rightarrow> ClusterObjectKey" where
  "ClusterKey obj = \<lparr>ck_Cluster = o_Cluster obj, ck_Kind = o_Kind obj, ck_Name = o_ObjectName obj\<rparr>"

text \<open>Modelled from the spec: the reference index, \<open>addRef(from, to)\<close> and \<open>delRef(from)\<close>.\<close>

definition AddRef :: "state \<Rightarrow> ClusterObjectKey \<Rightarrow> ClusterObjectKey \<Rightarrow> state" where
  "AddRef st from to = st\<lparr>references := (references st)(from \<mapsto> to)\<rparr>"

definition DelRef :: "state \<Rightarrow> ClusterObjectKey \<Rightarrow> state" where
  "DelRef st from = st\<lparr>references := (references st)(from := None)\<rparr>"

text \<open>A write to the object store takes the next outcome of \<open>write_errors\<close>.\<close>

definition store_write :: "state \<Rightarrow> state \<times> string option" where
  "store_write st = (case write_errors st of [] \<Rightarrow> (st, None)
                     | r # rs \<Rightarrow> (st\<lparr>write_errors := rs\<rparr>, r))"

definition Event :: "DNSObject \<Rightarrow> string \<Rightarrow> string \<Rightarrow> string \<Rightarrow> DNSObject" where
  "Event obj ty reason msg = obj\<lparr>o_Events := o_Events obj @ [(ty, reason, msg)]\<rparr>"

text \<open>
  Modelled from the spec: \<open>removeFinalizer(obj)\<close> of the object store. Nothing is written
  when the finalizer is not set; a failed write leaves the object as it was.
\<close>

definition RemoveFinalizer :: "state \<Rightarrow> DNSObject \<Rightarrow> state \<times> DNSObject \<times> string option" where
  "RemoveFinalizer st obj =
     (if \<not> o_Finalizer obj then (st, obj, None)
      else case store_write st of
             (st', None) \<Rightarrow> (st', obj\<lparr>o_Finalizer := False\<rparr>, None)
           | (st', Some e) \<Rightarrow> (st', obj, Some e))"

text \<open>
  Modelled from the spec: \<open>modifyStatus(mutatorFn)\<close>. The mutator works on a copy of the
  object's data and reports whether it changed anything; only then the copy is written,
  and it replaces the object's data when the write succeeds. The second component of the
  mutator's result carries what the closure assigns outside the data.
\<close>

definition ModifyStatus ::
  "state \<Rightarrow> DNSObject \<Rightarrow> (DNSObject \<Rightarrow> DNSObject \<times> 'x \<times> bool \<times> string option)
     \<Rightarrow> state \<times> DNSObject \<times> 'x \<times> bool \<times> string option" where
  "ModifyStatus st obj f =
     (case f obj of (data, x, m, err) \<Rightarrow>
        if \<not> m then (st, obj, x, False, err)
        else if err \<noteq> None then (st, obj, x, True, err)
        else (case store_write st of
                (st', None) \<Rightarrow> (st', data, x, True, None)
              | (st', Some e) \<Rightarrow> (st', obj, x, True, Some e)))"

text \<open>
  \<open>utils.ModificationState\<close> on a field of the status of the data: the \<open>Assure...\<close>
  methods store the value where the field differs from it and record the modification.
  The pair is the modification flag and the data; \<open>getf\<close> and \<open>setf\<close> name the field.
\<close>

definition AssureStatus ::
  "(DNSBaseStatus \<Rightarrow> 'a) \<Rightarrow> ('a \<Rightarrow> DNSBaseStatus \<Rightarrow> DNSBaseStatus) \<Rightarrow> bool \<times> DNSObject \<Rightarrow> 'a
     \<Rightarrow> bool \<times> DNSObject" where
  "AssureStatus getf setf md v =
     (if getf (o_Status (snd md)) \<noteq> v
      then (True, (snd md)\<lparr>o_Status := setf v (o_Status (snd md))\<rparr>)
      else md)"

text \<open>Modelled from the spec: \<open>AcknowledgeTargets\<close> stores the target list of the entry
  status and tells whether it differed (a nil list differs from an empty one).\<close>

definition AcknowledgeTargets :: "DNSObject \<Rightarrow> string list option \<Rightarrow> DNSObject \<times> bool" where
  "AcknowledgeTargets data l =
     (if o_StatusTargets data \<noteq> l then (data\<lparr>o_StatusTargets := l\<rparr>, True) else (data, False))"

definition SetLastUpdateTime :: "state \<Rightarrow> DNSBaseStatus \<Rightarrow> DNSBaseStatus" where
  "SetLastUpdateTime st b = b\<lparr>st_LastUptimeTime := Some (time_Now st)\<rparr>"

section \<open>Formatting\<close>

text \<open>\<open>%d\<close> of a length or index.\<close>

fun fmt_d :: "nat \<Rightarrow> string" where
  "fmt_d n = (if n < 10 then [char_of (48 + n)] else fmt_d (n div 10) @ [char_of (48 + n mod 10)])"

declare fmt_d.simps [simp del]

text \<open>\<open>%q\<close>: the text in double quotes (the escaping of special characters is left out).\<close>

definition fmt_q :: "string \<Rightarrow> string" where
  "fmt_q x = [CHR 0x22] @ x @ [CHR 0x22]"

text \<open>\<open>strings.TrimSpace\<close>, for the white space of ASCII.\<close>

definition isSpace :: "char \<Rightarrow> bool" where
  "isSpace c \<longleftrightarrow> c \<in> {CHR '' '', CHR 0x09, CHR 0x0A, CHR 0x0B, CHR 0x0C, CHR 0x0D}"

definition TrimSpace :: "string \<Rightarrow> string" where
  "TrimSpace x = rev (dropWhile isSpace (rev (dropWhile isSpace x)))"

definition HasPrefix :: "string \<Rightarrow> string \<Rightarrow> bool" where
  "HasPrefix x pre \<longleftrightarrow> take (length pre) x = pre"

section \<open>Reference completion\<close>

text \<open>
  \<open>complete\<close> follows the reference of a specification to the referenced entry and that
  entry's own reference, and so on; \<open>None\<close> is a call that never returns (a chain of
  references that comes back to an entry, or an accessor of a modification that never
  returns). The result is the state with the reference index updated and either the error
  or the completed specification.
\<close>

partial_function (option) complete ::
  "state \<Rightarrow> DNSSpecification \<Rightarrow> DNSObject \<Rightarrow> string
     \<Rightarrow> (state \<times> (string + DNSSpecification)) option" where
  "complete st spec obj pre =
     (case GetReference spec of
        None \<Rightarrow> Some (DelRef st (ClusterKey obj), Inr spec)
      | Some ref \<Rightarrow>
          if ref_Name ref = [] then Some (DelRef st (ClusterKey obj), Inr spec)
          else
            let ns = (if ref_Namespace ref = [] then Namespace (o_ObjectName obj)
                      else ref_Namespace ref);
                dnsref = \<lparr>Namespace = ns, Name = ref_Name ref\<rparr>;
                cur = ClusterKey obj;
                key' = \<lparr>ck_Cluster = ck_Cluster cur, ck_Kind = ck_Kind cur, ck_Name = dnsref\<rparr>;
                st1 = AddRef st cur key'
            in case GetCached st1 dnsref of
                 Inl err \<Rightarrow>
                   Some (st1, Inl (case err of
                       NotFound \<Rightarrow> ''entry reference '' @ pre @ fmt_q (ObjectName_String dnsref)
                                     @ '' not found''
                     | OtherError e \<Rightarrow> e))
               | Inr ref' \<Rightarrow>
                   (case CheckAccessWithRealms st1 obj ref' of
                      Some e \<Rightarrow> Some (st1, Inl (pre @ e))
                    | None \<Rightarrow>
                        Option.bind
                          (complete st1 (DNSEntryObject ref') ref'
                             (pre @ ObjectName_String dnsref @ ''->''))
                          (\<lambda>res. case snd res of
                             Inl e \<Rightarrow> Some (fst res, Inl e)
                           | Inr rspec \<Rightarrow>
                               if GetTargets spec \<noteq> None then
                                 Some (fst res,
                                   Inl (pre @ ''targets specified together with entry reference''))
                               else if GetText spec \<noteq> None then
                                 Some (fst res,
                                   Inl (pre @ ''text specified together with entry reference''))
                               else
                                 Option.bind (GetTTL spec) (\<lambda>sttl.
                                 Option.bind (if sttl = None then GetTTL rspec else Some None) (\<lambda>mttl.
                                 Option.bind (GetOwnerId spec) (\<lambda>sown.
                                 Option.bind (if sown = None then GetOwnerId rspec else Some None) (\<lambda>mown.
                                 Option.bind (GetCNameLookupInterval spec) (\<lambda>slk.
                                 Option.bind (if slk = None then GetCNameLookupInterval rspec
                                              else Some None) (\<lambda>mlk.
                                   let m = dnsSpecModification spec (GetTargets rspec) (GetText rspec)
                                             mttl mown mlk
                                   in if IsModified m then Some (fst res, Inr m)
                                      else Some (fst res, Inr spec))))))))))"

declare complete.simps [code]

section \<open>Validation\<close>

text \<open>
  Modelled from the spec: \<open>NewHostTargetFromEntryVersion\<close> parses a target value into a
  typed target (an IPv4 address is an A record, an IPv6 address an AAAA record, any other
  value a CNAME record) with the TTL of the entry version; it can fail.
\<close>

definition NewHostTargetFromEntryVersion :: "state \<Rightarrow> string \<Rightarrow> EntryVersion \<Rightarrow> string + Target" where
  "NewHostTargetFromEntryVersion st name entry =
     (case net_ParseIP st name of
        None \<Rightarrow> Inr (NewTarget RS_CNAME name (TTL entry))
      | Some (IPv4 a) \<Rightarrow> Inr (NewTarget RS_A name (TTL entry))
      | Some (IPv6 a) \<Rightarrow> Inr (NewTarget RS_AAAA name (TTL entry))
      | Some (OtherIP a) \<Rightarrow>
          Inl (''unexpected IP address (never ipv4 or ipv6): '' @ name @ '' ('' @ a @ '')''))"

text \<open>Modelled from the spec: a text value is a target of kind TXT.\<close>

definition NewText :: "string \<Rightarrow> int \<Rightarrow> Target" where
  "NewText t ttl = NewTarget RS_TXT t ttl"

text \<open>Modelled from the spec: targets are compared by value (kind, value and TTL).\<close>

definition Has :: "Targets \<Rightarrow> Target \<Rightarrow> bool" where
  "Has ts t \<longleftrightarrow> (\<exists>t' \<in> set ts. GetRecordType t' = GetRecordType t \<and>
                    GetHostName t' = GetHostName t \<and> Target_TTL t' = Target_TTL t)"

text \<open>Modelled from the spec: the text that stands for a target in a message.\<close>

definition Target_String :: "Target \<Rightarrow> string" where
  "Target_String t = GetHostName t"

text \<open>
  The loop over the targets of the effective specification: the index \<open>i\<close>, and the
  targets and warnings so far. An error ends the loop, and what was collected is returned
  with it (the results of \<open>validate\<close> are named).
\<close>

fun validate_targets ::
  "state \<Rightarrow> EntryVersion \<Rightarrow> string list \<Rightarrow> nat \<Rightarrow> Targets \<Rightarrow> string list
     \<Rightarrow> Targets \<times> string list \<times> string option" where
  "validate_targets st entry [] i ts ws = (ts, ws, None)"
| "validate_targets st entry (t # rest) i ts ws =
     (if TrimSpace t = [] then
        (ts, ws, Some (''target '' @ fmt_d (i + 1) @ '' must not be empty''))
      else case NewHostTargetFromEntryVersion st t entry of
             Inl e \<Rightarrow> (ts, ws, Some e)
           | Inr new \<Rightarrow>
               if Has ts new then
                 validate_targets st entry rest (i + 1) ts
                   (ws @ [''dns entry '' @ fmt_q (ObjectName_String (ObjectName_of entry))
                          @ '' has duplicate target '' @ fmt_q (Target_String new)])
               else validate_targets st entry rest (i + 1) (ts @ [new]) ws)"

text \<open>The loop over the text values, with the count \<open>tcnt\<close> of the values taken.\<close>

fun validate_text ::
  "EntryVersion \<Rightarrow> string list \<Rightarrow> Targets \<Rightarrow> string list \<Rightarrow> nat
     \<Rightarrow> Targets \<times> string list \<times> nat" where
  "validate_text entry [] ts ws tcnt = (ts, ws, tcnt)"
| "validate_text entry (t # rest) ts ws tcnt =
     (if t = [] then
        validate_text entry rest ts
          (ws @ [''dns entry '' @ fmt_q (ObjectName_String (ObjectName_of entry))
                 @ '' has empty text'']) tcnt
      else let new = NewText t (TTL entry) in
        if Has ts new then
          validate_text entry rest ts
            (ws @ [''dns entry '' @ fmt_q (ObjectName_String (ObjectName_of entry))
                   @ '' has duplicate text '' @ fmt_q (Target_String new)]) tcnt
        else validate_text entry rest (ts @ [new]) ws (tcnt + 1))"

text \<open>The length of a slice that may be nil.\<close>

definition len :: "'a list option \<Rightarrow> nat" where
  "len l = (case l of None \<Rightarrow> 0 | Some xs \<Rightarrow> length xs)"

definition elems :: "'a list option \<Rightarrow> 'a list" where
  "elems l = (case l of None \<Rightarrow> [] | Some xs \<Rightarrow> xs)"

text \<open>
  \<open>validate\<close> returns the state, the effective specification (\<open>None\<close> is the nil that
  \<open>complete\<close> returns with an error), the targets, the warnings and the error. The two
  messages built with \<open>%s\<close> of the nil error print it as \<open>%!s(<nil>)\<close>.
\<close>

definition validate ::
  "state \<Rightarrow> EntryVersion \<Rightarrow> EntryPremise
     \<Rightarrow> (state \<times> DNSSpecification option \<times> Targets \<times> string list \<times> string option) option" where
  "validate st entry p =
     (let effspec = DNSEntryObject (object entry);
          name = o_DNSName (object entry)
      in case ValidateDomainName st name of
           Some e \<Rightarrow> Some (st, Some effspec, [], [], Some e)
         | None \<Rightarrow>
       (case o_ValidateSpecial (object entry) of
           Some e \<Rightarrow> Some (st, Some effspec, [], [], Some e)
         | None \<Rightarrow>
       Option.bind (complete st effspec (object entry) []) (\<lambda>res.
         case snd res of
           Inl e \<Rightarrow> Some (fst res, None, [], [], Some e)
         | Inr effspec \<Rightarrow>
             let st = fst res in
             if zonedomain p = dnsname entry then
               Some (st, Some effspec, [], [],
                 Some (''usage of dns name ('' @ zonedomain p
                       @ '') identical to domain of hosted zone ('' @ zoneid p
                       @ '') is not supported''))
             else if len (GetTargets effspec) > 0 \<and> len (GetText effspec) > 0 then
               Some (st, Some effspec, [], [],
                 Some ''only Text or Targets possible: %!s(<nil>)'')
             else
               Option.bind (GetTTL effspec) (\<lambda>ttl.
                 if (case ttl of None \<Rightarrow> False | Some v \<Rightarrow> v = 0 \<or> v < 0) then
                   Some (st, Some effspec, [], [],
                     Some ''TTL must be greater than zero: %!s(<nil>)'')
                 else
                   case validate_targets st entry (elems (GetTargets effspec)) 0 [] [] of
                     (ts, ws, Some e) \<Rightarrow> Some (st, Some effspec, ts, ws, Some e)
                   | (ts, ws, None) \<Rightarrow>
                       (case validate_text entry (elems (GetText effspec)) ts ws 0 of
                          (ts, ws, tcnt) \<Rightarrow>
                            if len (GetText effspec) > 0 \<and> tcnt = 0 then
                              Some (st, Some effspec, ts, ws,
                                Some ''dns entry has only empty text'')
                            else if length ts = 0 then
                              Some (st, Some effspec, ts, ws,
                                Some ''no target or text specified'')
                            else Some (st, Some effspec, ts, ws, None))))))"

definition validateOwner :: "state \<Rightarrow> EntryVersion \<Rightarrow> string option" where
  "validateOwner st entry =
     (let ownerid = StringValue (o_OwnerId (object entry))
      in if ownerid \<noteq> [] \<and> Kind entry \<noteq> DNSLockKind \<and> \<not> IsResponsibleFor st ownerid
            \<and> \<not> IsResponsiblePendingFor st ownerid
         then Some (''unknown owner id '' @ [CHR 0x27] @ ownerid @ [CHR 0x27])
         else None)"

section \<open>The accessors of a completed specification\<close>

lemma GetTTL_None_aux:
  assumes "GetTTL this = Some y"
  shows "\<forall>w tg tx ow lk. this \<noteq> dnsSpecModification w tg tx None ow lk"
  using assms
  by (rule GetTTL.raw_induct [rotated, where P = "\<lambda>this y. \<forall>w tg tx ow lk. this \<noteq> dnsSpecModification w tg tx None ow lk"])
     (fastforce split: DNSSpecification.splits if_splits)

lemma GetTTL_object [simp, code]: "GetTTL (DNSEntryObject obj) = Some (o_TTL obj)"
  by (simp add: GetTTL.simps)

lemma GetTTL_modification [simp, code]:
  "GetTTL (dnsSpecModification w tg tx ttl ow lk) = (case ttl of Some v \<Rightarrow> Some (Some v) | None \<Rightarrow> None)"
proof (cases ttl)
  case None
  show ?thesis
    using GetTTL_None_aux [of "dnsSpecModification w tg tx None ow lk"] None
    by (cases "GetTTL (dnsSpecModification w tg tx None ow lk)") auto
next
  case (Some v)
  then show ?thesis by (simp add: GetTTL.simps)
qed

lemma GetOwnerId_None_aux:
  assumes "GetOwnerId this = Some y"
  shows "\<forall>w tg tx ttl lk. this \<noteq> dnsSpecModification w tg tx ttl None lk"
  using assms
  by (rule GetOwnerId.raw_induct [rotated, where P = "\<lambda>this y. \<forall>w tg tx ttl lk. this \<noteq> dnsSpecModification w tg tx ttl None lk"])
     (fastforce split: DNSSpecification.splits if_splits)

lemma GetOwnerId_object [simp, code]: "GetOwnerId (DNSEntryObject obj) = Some (o_OwnerId obj)"
  by (simp add: GetOwnerId.simps)

lemma GetOwnerId_modification [simp, code]:
  "GetOwnerId (dnsSpecModification w tg tx ttl ow lk) = (case ow of Some v \<Rightarrow> Some (Some v) | None \<Rightarrow> None)"
proof (cases ow)
  case None
  show ?thesis
    using GetOwnerId_None_aux [of "dnsSpecModification w tg tx ttl None lk"] None
    by (cases "GetOwnerId (dnsSpecModification w tg tx ttl None lk)") auto
next
  case (Some v)
  then show ?thesis by (simp add: GetOwnerId.simps)
qed

lemma GetCNameLookupInterval_None_aux:
  assumes "GetCNameLookupInterval this = Some y"
  shows "\<forall>w tg tx ttl ow. this \<noteq> dnsSpecModification w tg tx ttl ow None"
  using assms
  by (rule GetCNameLookupInterval.raw_induct [rotated, where P = "\<lambda>this y. \<forall>w tg tx ttl ow. this \<noteq> dnsSpecModification w tg tx ttl ow None"])
     (fastforce split: DNSSpecification.splits if_splits)

lemma GetCNameLookupInterval_object [simp, code]:
  "GetCNameLookupInterval (DNSEntryObject obj) = Some (o_CNameLookupInterval obj)"
  by (simp add: GetCNameLookupInterval.simps)

lemma GetCNameLookupInterval_modification [simp, code]:
  "GetCNameLookupInterval (dnsSpecModification w tg tx ttl ow lk) =
     (case lk of Some v \<Rightarrow> Some (Some v) | None \<Rightarrow> None)"
proof (cases lk)
  case None
  show ?thesis
    using GetCNameLookupInterval_None_aux [of "dnsSpecModification w tg tx ttl ow None"] None
    by (cases "GetCNameLookupInterval (dnsSpecModification w tg tx ttl ow None)") auto
next
  case (Some v)
  then show ?thesis by (simp add: GetCNameLookupInterval.simps)
qed

definition example_status :: DNSBaseStatus where
  "example_status = \<lparr>st_ObservedGeneration = 1, st_State = [], st_Message = None,
     st_LastUptimeTime = None, st_ProviderType = None, st_Provider = None, st_Zone = None,
     st_TTL = None\<rparr>"

definition example_object :: DNSObject where
  "example_object = \<lparr>o_Cluster = ''c'', o_Kind = ''DNSEntry'',
     o_ObjectName = \<lparr>Namespace = ''default'', Name = ''a''\<rparr>, o_Generation = 1,
     o_CreationTimestamp = 0, o_IsDeleting = False, o_Finalizer = True, o_RefreshTime = 0,
     o_ValidateSpecial = None, o_DNSName = ''a.example.com'', o_Reference = None,
     o_Targets = None, o_Text = None, o_TTL = None, o_OwnerId = None,
     o_CNameLookupInterval = None, o_Status = example_status, o_StatusTargets = None,
     o_Events = []\<rparr>"

definition object_b :: DNSObject where
  "object_b = example_object\<lparr>o_ObjectName := \<lparr>Namespace = ''default'', Name = ''b''\<rparr>,
     o_DNSName := ''b.example.com'', o_Targets := Some [''1.2.3.4'']\<rparr>"

definition object_a :: DNSObject where
  "object_a = example_object\<lparr>o_Reference := Some \<lparr>ref_Namespace = [], ref_Name = ''b''\<rparr>,
     o_TTL := Some 120\<rparr>"

definition example_state :: state where
  "example_state = \<lparr>providers_of = providers0, time_Now = 1000,
     ValidateDomainName = (\<lambda>n. None),
     net_ParseIP = (\<lambda>n. if n = ''1.2.3.4'' then Some (IPv4 n) else None),
     net_LookupIP = (\<lambda>n. Inl ''no such host''),
     GetCached = (\<lambda>n. if n = \<lparr>Namespace = ''default'', Name = ''b''\<rparr> then Inr object_b
                        else Inl NotFound),
     CheckAccessWithRealms = (\<lambda>a b. None),
     IsResponsibleFor = (\<lambda>i. True), IsResponsiblePendingFor = (\<lambda>i. False),
     references = Map.empty, write_errors = []\<rparr>"

lemma complete_a:
  "complete example_state (DNSEntryObject object_a) object_a [] =
     Some (DelRef (AddRef example_state (ClusterKey object_a)
             (ClusterKey object_b\<lparr>ck_Name := \<lparr>Namespace = ''default'', Name = ''b''\<rparr>\<rparr>)) (ClusterKey object_b),
           Inr (dnsSpecModification (DNSEntryObject object_a) (Some [''1.2.3.4'']) None None None None))"
  apply (subst complete.simps)
  apply (subst complete.simps)
  apply (simp add: object_a_def object_b_def example_object_def example_state_def Let_def AddRef_def ClusterKey_def DelRef_def IsModified_def)
  done

text \<open>
  C2. An accessor of a \<open>dnsSpecModification\<close> returns the override when it is set. When the
  override is not set, \<open>GetOwnerId\<close>, \<open>GetCNameLookupInterval\<close> and \<open>GetTTL\<close> do not return
  the wrapped specification's value: they never return. Reference completion produces
  such a value: entry \<open>a\<close> sets its own TTL and refers to entry \<open>b\<close>, which has a target;
  the completed specification has no TTL override, and \<open>validate\<close>, which asks it for the
  TTL, never returns.
\<close>

theorem C2_accessors_without_override:
  "GetOwnerId (dnsSpecModification w tg tx ttl (Some i) lk) = Some (Some i) \<and>
   GetCNameLookupInterval (dnsSpecModification w tg tx ttl ow (Some n)) = Some (Some n) \<and>
   GetTTL (dnsSpecModification w tg tx (Some n) ow lk) = Some (Some n) \<and>
   GetOwnerId (dnsSpecModification w tg tx ttl None lk) = None \<and>
   GetCNameLookupInterval (dnsSpecModification w tg tx ttl ow None) = None \<and>
   GetTTL (dnsSpecModification w tg tx None ow lk) = None \<and>
   complete example_state (DNSEntryObject object_a) object_a [] =
     Some (DelRef (AddRef example_state (ClusterKey object_a)
                     (ClusterKey object_b\<lparr>ck_Name := \<lparr>Namespace = ''default'', Name = ''b''\<rparr>\<rparr>))
             (ClusterKey object_b),
           Inr (dnsSpecModification (DNSEntryObject object_a) (Some [''1.2.3.4''])
                  None None None None)) \<and>
   validate example_state (NewEntryVersion object_a None) premise_a = None"
proof -
  have 1: "ValidateDomainName example_state n = None" for n
    by (simp add: example_state_def)
  have 2: "o_ValidateSpecial object_a = None" "o_DNSName object_a = ''a.example.com''"
    "o_Text object_a = None"
    by (simp_all add: object_a_def example_object_def)
  have 3: "zonedomain premise_a = ''example.com''"
    by (simp add: premise_a_def)
  have "validate example_state (NewEntryVersion object_a None) premise_a = None"
    by (simp add: validate_def NewEntryVersion_def Let_def len_def complete_a 1 2 3)
  then show ?thesis
    by (simp add: complete_a)
qed

section \<open>Locking an entry list\<close>

text \<open>
  Modelled from the spec: the cancellable mutual-exclusion lock of an entry
  (\<open>dnsutils.TryLock\<close>). \<open>held\<close> are the locks the caller holds, \<open>trace\<close> the
  acquisitions and releases in the order they happened. An acquisition either gets the
  lock or is cancelled and returns the error, leaving the lock as it was; \<open>cancelled\<close>
  tells which. Waiting for a lock that the caller holds itself, with no cancellation, never
  ends: \<open>None\<close>.
\<close>

datatype lock_event = Locked nat | Unlocked nat

record locks =
  held :: "nat set"
  trace :: "lock_event list"

definition TryLock_Lock :: "locks \<Rightarrow> nat \<Rightarrow> string option \<Rightarrow> (locks \<times> string option) option" where
  "TryLock_Lock ls l cancelled =
     (case cancelled of
        Some e \<Rightarrow> Some (ls, Some e)
      | None \<Rightarrow> if l \<in> held ls then None
                else Some (ls\<lparr>held := insert l (held ls), trace := trace ls @ [Locked l]\<rparr>, None))"

definition TryLock_Unlock :: "locks \<Rightarrow> nat \<Rightarrow> locks" where
  "TryLock_Unlock ls l = ls\<lparr>held := held ls - {l}, trace := trace ls @ [Unlocked l]\<rparr>"

text \<open>
  \<open>Sort\<close> is \<open>sort.Sort\<close> with \<open>Less\<close> comparing the keys by \<open>strings.Compare\<close>: the
  list in ascending order of the keys (entries with equal keys in the order of the
  insertion sort; the library does not promise an order among them).
\<close>

definition EntryList_Sort :: "Entry list \<Rightarrow> Entry list" where
  "EntryList_Sort this = sort_key key this"

text \<open>The inner loop of \<open>Lock\<close>: \<open>for j := i - 1; j >= 0; j--\<close>, started with \<open>i\<close>.\<close>

fun Lock_release :: "locks \<Rightarrow> Entry list \<Rightarrow> nat \<Rightarrow> locks" where
  "Lock_release ls this 0 = ls"
| "Lock_release ls this (Suc j) = Lock_release (TryLock_Unlock ls (lock (this ! j))) this j"

text \<open>The outer loop of \<open>Lock\<close>; \<open>ctx i\<close> is the outcome of the acquisition for index \<open>i\<close>.\<close>

function Lock_loop ::
  "(nat \<Rightarrow> string option) \<Rightarrow> locks \<Rightarrow> Entry list \<Rightarrow> nat \<Rightarrow> (locks \<times> string option) option" where
  "Lock_loop ctx ls this i =
     (if i < length this then
        (case TryLock_Lock ls (lock (this ! i)) (ctx i) of
           None \<Rightarrow> None
         | Some (ls', Some err) \<Rightarrow> Some (Lock_release ls' this i, Some err)
         | Some (ls', None) \<Rightarrow> Lock_loop ctx ls' this (i + 1))
      else Some (ls, None))"
  by pat_completeness auto
termination
  by (relation "measure (\<lambda>(ctx, ls, this, i). length this - i)") auto

declare Lock_loop.simps [simp del]

definition EntryList_Lock ::
  "(nat \<Rightarrow> string option) \<Rightarrow> locks \<Rightarrow> Entry list \<Rightarrow> (locks \<times> Entry list \<times> string option) option" where
  "EntryList_Lock ctx ls this =
     (let sorted_this = EntryList_Sort this
      in case Lock_loop ctx ls sorted_this 0 of
           None \<Rightarrow> None
         | Some (ls', err) \<Rightarrow> Some (ls', sorted_this, err))"

lemma Lock_release_held:
  "j \<le> length es \<Longrightarrow> held (Lock_release ls es j) = held ls - lock ` set (take j es)"
proof (induction j arbitrary: ls)
  case 0
  then show ?case by simp
next
  case (Suc j)
  then show ?case
    by (auto simp: TryLock_Unlock_def take_Suc_conv_app_nth)
qed

lemma Lock_release_trace:
  "j \<le> length es \<Longrightarrow>
   trace (Lock_release ls es j) = trace ls @ map Unlocked (rev (map lock (take j es)))"
proof (induction j arbitrary: ls)
  case 0
  then show ?case by simp
next
  case (Suc j)
  then show ?case
    by (simp add: TryLock_Unlock_def take_Suc_conv_app_nth)
qed

definition Lock_spec ::
  "(nat \<Rightarrow> string option) \<Rightarrow> locks \<Rightarrow> Entry list \<Rightarrow> (locks \<times> string option) option \<Rightarrow> bool" where
  "Lock_spec ctx ls0 es r =
     (case r of
        None \<Rightarrow> \<not> distinct (map lock es)
      | Some (ls', None) \<Rightarrow>
          held ls' = held ls0 \<union> lock ` set es \<and>
          trace ls' = trace ls0 @ map Locked (map lock es)
      | Some (ls', Some e) \<Rightarrow>
          held ls' = held ls0 \<and>
          (\<exists>i < length es. ctx i = Some e \<and>
             trace ls' = trace ls0 @ map Locked (map lock (take i es))
                         @ map Unlocked (rev (map lock (take i es)))))"

lemma Lock_loop_spec:
  assumes "lock ` set es \<inter> held ls0 = {}" "i \<le> length es"
    "held ls = held ls0 \<union> lock ` set (take i es)"
    "trace ls = trace ls0 @ map Locked (map lock (take i es))"
  shows "Lock_spec ctx ls0 es (Lock_loop ctx ls es i)"
  using assms
proof (induction ctx ls es i rule: Lock_loop.induct)
  case (1 ctx ls this i)
  show ?case
  proof (cases "i < length this")
    case False
    then have "Lock_loop ctx ls this i = Some (ls, None)"
      by (simp add: Lock_loop.simps [of ctx ls this i])
    moreover have "take i this = this"
      using False by simp
    ultimately show ?thesis
      using "1.prems" by (simp add: Lock_spec_def)
  next
    case True
    note i = True
    show ?thesis
    proof (cases "ctx i")
      case (Some e)
      have "held (Lock_release ls this i) = held ls0"
        using "1.prems" by (auto simp: Lock_release_held dest: in_set_takeD)
      moreover have "trace (Lock_release ls this i) =
          trace ls0 @ map Locked (map lock (take i this)) @ map Unlocked (rev (map lock (take i this)))"
        using "1.prems" by (simp add: Lock_release_trace)
      ultimately show ?thesis
        using Some i
        by (auto simp: Lock_loop.simps [of ctx ls this i] TryLock_Lock_def Lock_spec_def)
    next
      case None
      show ?thesis
      proof (cases "lock (this ! i) \<in> held ls")
        case True
        moreover have "lock (this ! i) \<notin> held ls0"
          using "1.prems"(1) i by (meson disjoint_iff imageI nth_mem)
        ultimately have "lock (this ! i) \<in> lock ` set (take i this)"
          using "1.prems"(3) by simp
        then obtain j where j: "j < i" "lock (this ! j) = lock (this ! i)"
          using i by (auto simp: in_set_conv_nth)
        have "\<not> distinct (map lock this)"
        proof
          assume "distinct (map lock this)"
          then show False
            using nth_eq_iff_index_eq [of "map lock this" j i] j i by simp
        qed
        then show ?thesis
          using None True i
          by (simp add: Lock_loop.simps [of ctx ls this i] TryLock_Lock_def Lock_spec_def)
      next
        case False
        define ls' where "ls' = ls\<lparr>held := insert (lock (this ! i)) (held ls),
          trace := trace ls @ [Locked (lock (this ! i))]\<rparr>"
        have step: "TryLock_Lock ls (lock (this ! i)) (ctx i) = Some (ls', None)"
          using None False by (simp add: TryLock_Lock_def ls'_def)
        have "Lock_spec ctx ls0 this (Lock_loop ctx ls' this (i + 1))"
        proof (rule "1.IH" [OF i step refl refl])
          show "lock ` set this \<inter> held ls0 = {}" by (rule "1.prems")
          show "i + 1 \<le> length this" using i by simp
          show "held ls' = held ls0 \<union> lock ` set (take (i + 1) this)"
            using "1.prems" i by (auto simp: ls'_def take_Suc_conv_app_nth)
          show "trace ls' = trace ls0 @ map Locked (map lock (take (i + 1) this))"
            using "1.prems" i by (simp add: ls'_def take_Suc_conv_app_nth)
        qed
        then show ?thesis
          using i step by (simp add: Lock_loop.simps [of ctx ls this i])
      qed
    qed
  qed
qed

lemma distinct_map_mset_cong:
  assumes "mset xs = mset ys"
  shows "distinct (map f xs) \<longleftrightarrow> distinct (map f ys)"
proof -
  have "mset (map f xs) = mset (map f ys)"
    using assms by simp
  then show ?thesis
    by (rule mset_eq_imp_distinct_iff)
qed

text \<open>
  C1. \<open>Lock\<close> sorts the list into ascending order of the keys, a permutation of the list,
  and acquires the locks in that order. For a caller that holds none of the locks of the
  list: when \<open>Lock\<close> returns nil, it holds the lock of every entry, acquired in the sorted
  order; when it returns an error, the acquisition for some index \<open>i\<close> failed with that
  error, the locks of the entries before \<open>i\<close> were acquired in order and released in
  reverse order, and the caller holds none of the locks. \<open>Lock\<close> returns whenever no lock
  occurs twice in the list.
\<close>

theorem C1_EntryList_Lock:
  assumes "lock ` set this \<inter> held ls = {}"
  shows "case EntryList_Lock ctx ls this of
      None \<Rightarrow> \<not> distinct (map lock this)
    | Some (ls', sorted_this, err) \<Rightarrow>
        sorted_this = EntryList_Sort this \<and> sorted (map key sorted_this) \<and>
        mset sorted_this = mset this \<and>
        (case err of
           None \<Rightarrow>
             held ls' = held ls \<union> lock ` set this \<and>
             trace ls' = trace ls @ map Locked (map lock sorted_this)
         | Some e \<Rightarrow>
             held ls' = held ls \<and>
             (\<exists>i < length sorted_this. ctx i = Some e \<and>
                trace ls' = trace ls @ map Locked (map lock (take i sorted_this))
                            @ map Unlocked (rev (map lock (take i sorted_this)))))"
proof -
  define es where "es = EntryList_Sort this"
  have perm: "mset es = mset this" and srt: "sorted (map key es)"
    by (simp_all add: es_def EntryList_Sort_def)
  have set_es: "set es = set this"
    using perm by (rule mset_eq_setD)
  have "Lock_spec ctx ls es (Lock_loop ctx ls es 0)"
    by (rule Lock_loop_spec) (use assms set_es in simp_all)
  moreover have "distinct (map lock es) \<longleftrightarrow> distinct (map lock this)"
    using perm by (rule distinct_map_mset_cong)
  ultimately show ?thesis
    using perm srt set_es
    by (auto simp: EntryList_Lock_def Lock_spec_def Let_def es_def [symmetric]
        split: option.splits)
qed

definition example_entry :: Entry where
  "example_entry = \<lparr>lock = 1, key = ''default/b'', createdAt = 0, modified = False,
     updateRequired = False, activezone = [],
     EntryVersion = NewEntryVersion object_b None\<rparr>"

definition example_entry_a :: Entry where
  "example_entry_a = \<lparr>lock = 2, key = ''default/a'', createdAt = 0, modified = False,
     updateRequired = False, activezone = [],
     EntryVersion = NewEntryVersion object_a None\<rparr>"

theorem C1_EntryList_Lock_witness:
  "lock ` set [example_entry, example_entry_a] \<inter> held \<lparr>held = {}, trace = []\<rparr> = {} \<and>
   EntryList_Lock (\<lambda>i. if i = 1 then Some ''context canceled'' else None)
     \<lparr>held = {}, trace = []\<rparr> [example_entry, example_entry_a] =
     Some (\<lparr>held = {}, trace = [Locked 2, Unlocked 2]\<rparr>, [example_entry_a, example_entry],
           Some ''context canceled'')"
proof -
  have k: "key example_entry_a \<le> key example_entry" "\<not> key example_entry \<le> key example_entry_a"
    by (simp_all add: example_entry_def example_entry_a_def)
  have s: "EntryList_Sort [example_entry, example_entry_a] = [example_entry_a, example_entry]"
    using k by (simp add: EntryList_Sort_def)
  have l: "lock example_entry = 1" "lock example_entry_a = 2"
    by (simp_all add: example_entry_def example_entry_a_def)
  show ?thesis
    using C1_EntryList_Lock [of "[example_entry, example_entry_a]" "\<lparr>held = {}, trace = []\<rparr>"
        "\<lambda>i. if i = 1 then Some ''context canceled'' else None"]
    by (simp add: EntryList_Lock_def s l Lock_loop.simps TryLock_Lock_def TryLock_Unlock_def
        numeral_2_eq_2)
qed

section \<open>Writing the status\<close>

text \<open>The loop of \<open>targetList\<close>: the list and the message so far, and the separator.\<close>

fun targetList_loop :: "Targets \<Rightarrow> string list \<Rightarrow> string \<Rightarrow> string \<Rightarrow> string list \<times> string" where
  "targetList_loop [] l msg sep = (l, msg)"
| "targetList_loop (t # ts) l msg sep =
     targetList_loop ts (l @ [GetHostName t]) (msg @ sep @ Target_String t) '', ''"

definition targetList :: "Targets \<Rightarrow> string list \<times> string" where
  "targetList ts = (case targetList_loop ts [] ''update effective targets: ['' [] of
                      (l, msg) \<Rightarrow> (l, msg @ '']''))"

text \<open>
  The closure that \<open>UpdateStatus\<close> hands to \<open>ModifyStatus\<close>. It changes the data and, in
  the same run, the state and message of the entry version. (\<open>Wrap\<close> fails only for data
  of another type than the resource's, which the data of the object itself never is.)
\<close>

definition UpdateStatus_f ::
  "state \<Rightarrow> EntryVersion \<Rightarrow> string \<Rightarrow> string \<Rightarrow> DNSObject
     \<Rightarrow> DNSObject \<times> EntryVersion \<times> bool \<times> string option" where
  "UpdateStatus_f st this state' msg data =
     (let b = o_Status data in
      if state' = STATE_PENDING \<and> st_State b \<noteq> [] then (data, this, False, None)
      else
        let md = (False, data);
            md = (if state' = STATE_READY then
                    let md = AssureStatus st_TTL (\<lambda>x b. b\<lparr>st_TTL := x\<rparr>) md (st_TTL (status this));
                        ack = AcknowledgeTargets (snd md) (Some (fst (targetList (targets this))));
                        md = (if snd ack then (True, fst ack) else md)
                    in if st_Provider (status this) \<noteq> None
                       then AssureStatus st_Provider (\<lambda>x b. b\<lparr>st_Provider := x\<rparr>) md
                              (st_Provider (status this))
                       else md
                  else if state' \<noteq> STATE_STALE then
                    let ack = AcknowledgeTargets (snd md) None in (fst md \<or> snd ack, fst ack)
                  else md);
            md = AssureStatus st_ObservedGeneration (\<lambda>x b. b\<lparr>st_ObservedGeneration := x\<rparr>) md
                   (o_Generation (snd md));
            keep = (st_State (status this) = STATE_STALE \<and> st_State (status this) = state');
            md = (if \<not> keep then AssureStatus st_Message (\<lambda>x b. b\<lparr>st_Message := x\<rparr>) md (Some msg)
                  else md);
            this = (if \<not> keep then this\<lparr>status := (status this)\<lparr>st_Message := Some msg\<rparr>\<rparr>
                    else this);
            md = AssureStatus st_State (\<lambda>x b. b\<lparr>st_State := x\<rparr>) md state';
            this = this\<lparr>status := (status this)\<lparr>st_State := state'\<rparr>\<rparr>;
            md = (if fst md
                  then (fst md, (snd md)\<lparr>o_Status := SetLastUpdateTime st (o_Status (snd md))\<rparr>)
                  else md)
        in (snd md, this, fst md, None))"

definition UpdateStatus ::
  "state \<Rightarrow> EntryVersion \<Rightarrow> string \<Rightarrow> string \<Rightarrow> state \<times> EntryVersion \<times> bool \<times> string option" where
  "UpdateStatus st this state' msg =
     (case ModifyStatus st (object this) (UpdateStatus_f st this state' msg) of
        (st', obj', this', changed, err) \<Rightarrow> (st', this'\<lparr>object := obj'\<rparr>, changed, err))"

text \<open>The closure of \<open>updateStatus\<close>, and \<open>updateStatus\<close> with the event it emits.\<close>

definition updateStatus_f ::
  "EntryVersion \<Rightarrow> string \<Rightarrow> string \<Rightarrow> DNSObject \<Rightarrow> DNSObject \<times> unit \<times> bool \<times> string option" where
  "updateStatus_f this state' logmsg data =
     (let md = (False, data);
          md = AssureStatus st_ProviderType (\<lambda>x b. b\<lparr>st_ProviderType := x\<rparr>) md
                 (st_ProviderType (status this));
          md = AssureStatus st_State (\<lambda>x b. b\<lparr>st_State := x\<rparr>) md state';
          md = AssureStatus st_Message (\<lambda>x b. b\<lparr>st_Message := x\<rparr>) md (Some logmsg);
          md = AssureStatus st_Zone (\<lambda>x b. b\<lparr>st_Zone := x\<rparr>) md (st_Zone (status this));
          md = AssureStatus st_Provider (\<lambda>x b. b\<lparr>st_Provider := x\<rparr>) md
                 (st_Provider (status this));
          md = AssureStatus st_TTL (\<lambda>x b. b\<lparr>st_TTL := x\<rparr>) md (st_TTL (status this));
          md = (if state' \<noteq> [] \<and>
                   st_ObservedGeneration (o_Status (snd md)) < o_Generation (object this)
                then AssureStatus st_ObservedGeneration (\<lambda>x b. b\<lparr>st_ObservedGeneration := x\<rparr>) md
                       (o_Generation (object this))
                else md);
          md = (if StringValue (st_Provider (status this)) = [] then
                  let ack = AcknowledgeTargets (snd md) None in (fst md \<or> snd ack, fst ack)
                else md)
      in (snd md, (), fst md, None))"

definition updateStatus ::
  "state \<Rightarrow> EntryVersion \<Rightarrow> string \<Rightarrow> string \<Rightarrow> state \<times> EntryVersion \<times> string option" where
  "updateStatus st this state' logmsg =
     (case ModifyStatus st (object this) (updateStatus_f this state' logmsg) of
        (st', obj', u, changed, err) \<Rightarrow>
          (st', this\<lparr>object := Event obj' ''Normal'' ''reconcile'' logmsg\<rparr>, err))"

section \<open>Normalizing the targets\<close>

definition lookupHosts :: "state \<Rightarrow> string \<Rightarrow> string + (string list \<times> string list)" where
  "lookupHosts st hostname =
     (case net_LookupIP st hostname of
        Inl e \<Rightarrow> Inl e
      | Inr ips \<Rightarrow>
          let ipv4addrs = concat (map (\<lambda>ip. case ip of IPv4 a \<Rightarrow> [a] | IPv6 a \<Rightarrow> [] | OtherIP a \<Rightarrow> []) ips);
              ipv6addrs = concat (map (\<lambda>ip. case ip of IPv4 a \<Rightarrow> [] | IPv6 a \<Rightarrow> [a] | OtherIP a \<Rightarrow> []) ips)
          in if length ipv4addrs = 0 \<and> length ipv6addrs = 0 then
               Inl (hostname @ '' has no IPv4/IPv6 address (of '' @ fmt_d (length ips)
                    @ '' addresses)'')
             else Inr (ipv4addrs, ipv6addrs))"

text \<open>The loops \<open>outerV4\<close> and \<open>outerV6\<close>: an address that a target of the result
  already has as its host name is skipped.\<close>

fun normalize_addrs :: "RecordType \<Rightarrow> int \<Rightarrow> string list \<Rightarrow> Targets \<Rightarrow> Targets" where
  "normalize_addrs ty ttl [] result = result"
| "normalize_addrs ty ttl (addr # rest) result =
     (if \<exists>old \<in> set result. GetHostName old = addr then normalize_addrs ty ttl rest result
      else normalize_addrs ty ttl rest (result @ [NewTarget ty addr ttl]))"

fun normalize_loop :: "state \<Rightarrow> Targets \<Rightarrow> Targets \<Rightarrow> DNSObject \<Rightarrow> Targets \<times> DNSObject" where
  "normalize_loop st [] result obj = (result, obj)"
| "normalize_loop st (t # ts) result obj =
     (case lookupHosts st (GetHostName t) of
        Inr (ipv4addrs, ipv6addrs) \<Rightarrow>
          normalize_loop st ts
            (normalize_addrs RS_AAAA (Target_TTL t) ipv6addrs
               (normalize_addrs RS_A (Target_TTL t) ipv4addrs result)) obj
      | Inl err \<Rightarrow>
          normalize_loop st ts result
            (Event obj ''Normal'' ''dnslookup''
               (''cannot lookup '' @ [CHR 0x27] @ GetHostName t @ [CHR 0x27] @ '': '' @ err)))"

text \<open>\<open>normalizeTargets\<close> returns the targets, \<open>multiCNAME\<close>, the ok marker, and the
  object with the events emitted on it.\<close>

definition normalizeTargets ::
  "state \<Rightarrow> DNSObject \<Rightarrow> Targets \<Rightarrow> Targets \<times> bool \<times> bool \<times> DNSObject" where
  "normalizeTargets st obj ts =
     (let multiCNAME = (length ts > 1 \<and>
            (case ts of t # rest \<Rightarrow> GetRecordType t = RS_CNAME | [] \<Rightarrow> False))
      in if \<not> multiCNAME then (ts, False, False, obj)
         else if length ts > 11 then
           ([], True, False,
            Event obj ''Warning'' ''dnslookup restriction''
              (''too many CNAME targets: '' @ fmt_d (length ts)))
         else (case normalize_loop st ts [] obj of
                 (result, obj') \<Rightarrow> (result, True, True, obj')))"

section \<open>A pending update of an entry that has a state\<close>

text \<open>
  C10. \<open>UpdateStatus\<close> with the state PENDING, on an entry version whose object has a
  non-empty persisted state, returns \<open>(false, nil)\<close> and changes nothing: the object with
  every field of its status, the entry version, and the controller state (nothing is
  written to the object store) are as before.
\<close>

theorem C10_UpdateStatus_pending:
  assumes "st_State (o_Status (object this)) \<noteq> []"
  shows "UpdateStatus st this STATE_PENDING msg = (st, this, False, None)"
  using assms by (simp add: UpdateStatus_def ModifyStatus_def UpdateStatus_f_def)

definition ready_object :: DNSObject where
  "ready_object = example_object\<lparr>o_Targets := Some [''1.2.3.4''],
     o_Status := example_status\<lparr>st_State := ''Ready'', st_ProviderType := Some ''aws-route53'',
       st_Zone := Some ''Z1'', st_Provider := Some ''default/prov'', st_TTL := Some 300\<rparr>,
     o_StatusTargets := Some [''1.2.3.4'']\<rparr>"

theorem C10_UpdateStatus_pending_witness:
  "st_State (o_Status (object (NewEntryVersion ready_object None))) \<noteq> [] \<and>
   UpdateStatus example_state (NewEntryVersion ready_object None) STATE_PENDING ''waiting'' =
     (example_state, NewEntryVersion ready_object None, False, None)"
  using C10_UpdateStatus_pending [of "NewEntryVersion ready_object None" example_state "''waiting''"]
  by (simp add: NewEntryVersion_def ready_object_def example_object_def)

section \<open>Setup\<close>

text \<open>
  \<open>reconcile.Status\<close> as the constructors build it: \<open>Succeeded\<close>,
  \<open>Succeeded(...).RescheduleAfter(d)\<close>, \<open>Failed(err)\<close>, \<open>Delay(err)\<close>,
  \<open>Recheck(err, d)\<close> and \<open>Repeat(err)\<close>. Durations are nanoseconds.
\<close>

datatype Status = Succeeded | RescheduleAfter int | Failed string | Delay string
  | Recheck string int | Repeat string

definition RepeatOnError :: "string option \<Rightarrow> Status" where
  "RepeatOnError err = (case err of None \<Rightarrow> Succeeded | Some e \<Rightarrow> Repeat e)"

definition DelayOnError :: "string option \<Rightarrow> Status" where
  "DelayOnError err = (case err of None \<Rightarrow> Succeeded | Some e \<Rightarrow> Delay e)"

definition Second :: int where
  "Second = 1000000000"

text \<open>
  How a part of \<open>Setup\<close> ends: \<open>Return\<close> is a return of \<open>Setup\<close> with the status, the entry
  version and the controller state as they are then; \<open>Continue\<close> goes on with the next
  part; \<open>Panic\<close> is a nil dereference. \<open>Setup\<close> as a whole ends with \<open>Return\<close> or
  \<open>Panic\<close>, or never returns (\<open>None\<close>).
\<close>

datatype flow = Return Status EntryVersion state | Continue EntryVersion state | Panic

text \<open>
  The first part, "handle type responsibility", up to the return for an entry without
  zone or provider type, in the four steps of the source. The logger, the operation name
  \<open>op\<close> and \<open>old\<close> take no part in what \<open>Setup\<close> does and are left out.
\<close>

text \<open>The flags are reset, and a provider type that another controller stamped on the
  object is taken over when the premise has none.\<close>

definition Setup_adopt :: "EntryVersion \<Rightarrow> EntryPremise \<Rightarrow> EntryVersion" where
  "Setup_adopt this p =
     (let this = this\<lparr>valid := False, responsible := False\<rparr>
      in if \<not> IsEmptyString (st_ProviderType (o_Status (object this))) \<and> ptype p = []
         then this\<lparr>status := (status this)
                \<lparr>st_ProviderType := st_ProviderType (o_Status (object this))\<rparr>\<rparr>
         else this)"

text \<open>No provider type is assigned, or it differs from the premise's while a zone is
  resolved.\<close>

definition Setup_unassigned ::
  "state \<Rightarrow> Config \<Rightarrow> EntryVersion \<Rightarrow> EntryPremise \<Rightarrow> string option \<Rightarrow> flow" where
  "Setup_unassigned st config this p err =
     (if IsEmptyString (st_ProviderType (status this)) \<or>
         (zoneid p \<noteq> [] \<and> StringValue (st_ProviderType (status this)) \<noteq> ptype p)
      then
        if zoneid p = [] then
          if o_CreationTimestamp (object this) + RescheduleDelay config > time_Now st
          then
            (case RemoveFinalizer st (object this) of
               (st', obj', e) \<Rightarrow>
                 Return (RescheduleAfter (RescheduleDelay config)) (this\<lparr>object := obj'\<rparr>) st')
          else
            let this = this\<lparr>status := (status this)
                         \<lparr>st_Provider := None, st_ProviderType := None, st_Zone := None\<rparr>\<rparr>;
                msg = (case err of
                         None \<Rightarrow> ''No responsible provider found''
                       | Some e \<Rightarrow> ''No responsible provider found: '' @ e)
            in (case updateStatus st this STATE_ERROR msg of
                  (st', this', None) \<Rightarrow> Continue this' st'
                | (st', this', Some e) \<Rightarrow> Return (Delay e) this' st')
        else
          Continue (this\<lparr>status := (status this)
             \<lparr>st_State := STATE_PENDING,
              st_Message := Some ''waiting for dns reconciliation''\<rparr>\<rparr>) st
      else Continue this st)"

text \<open>No zone, and the assigned provider type is one of this controller's: the
  assignment is revoked.\<close>

definition Setup_revoke :: "state \<Rightarrow> EntryVersion \<Rightarrow> EntryPremise \<Rightarrow> flow" where
  "Setup_revoke st this p =
     (if zoneid p = [] \<and> \<not> IsEmptyString (st_ProviderType (status this)) \<and>
         StringValue (st_ProviderType (status this)) \<in> ptypes p
      then
        let oldType = StringValue (st_ProviderType (status this));
            this = this\<lparr>status := (status this)
                     \<lparr>st_Provider := None, st_ProviderType := None, st_Zone := None\<rparr>\<rparr>
        in (case updateStatus st this []
                   (''not valid for known provider anymore -> releasing provider type ''
                    @ oldType) of
              (st', this', None) \<Rightarrow> Continue this' st'
            | (st', this', Some e) \<Rightarrow> Return (Delay e) this' st')
      else Continue this st)"

text \<open>Without zone or provider type there is nothing to reconcile: the finalizer goes.\<close>

definition Setup_release :: "state \<Rightarrow> EntryVersion \<Rightarrow> EntryPremise \<Rightarrow> flow" where
  "Setup_release st this p =
     (if zoneid p = [] \<or> ptype p = [] then
        (case RemoveFinalizer st (object this) of
           (st', obj', e) \<Rightarrow> Return (RepeatOnError e) (this\<lparr>object := obj'\<rparr>) st')
      else Continue this st)"

definition Setup_responsibility ::
  "state \<Rightarrow> Config \<Rightarrow> EntryVersion \<Rightarrow> EntryPremise \<Rightarrow> string option \<Rightarrow> flow" where
  "Setup_responsibility st config this p err =
     (case Setup_unassigned st config (Setup_adopt this p) p err of
        Continue this st \<Rightarrow>
          (case Setup_revoke st this p of
             Continue this st \<Rightarrow> Setup_release st this p
           | r \<Rightarrow> r)
      | r \<Rightarrow> r)"

text \<open>Responsibility is established: zone, provider type, provider and TTL are stamped.\<close>

definition Setup_assign :: "state \<Rightarrow> EntryVersion \<Rightarrow> EntryPremise \<Rightarrow> EntryVersion" where
  "Setup_assign st this p =
     (let this = this\<lparr>status := (status this)
                   \<lparr>st_Zone := Some (zoneid p), st_ProviderType := Some (ptype p)\<rparr>,
                 responsible := True\<rparr>
      in case provider p of
           Some pr \<Rightarrow>
             let this = this\<lparr>providername := Some (p_ObjectName (providers_of st pr)),
                        status := (status this)
                          \<lparr>st_Provider := Some (ObjectName_String (p_ObjectName (providers_of st pr))),
                           st_TTL := Some (p_DefaultTTL (providers_of st pr))\<rparr>\<rparr>
             in if o_TTL (object this) \<noteq> None
                then this\<lparr>status := (status this)\<lparr>st_TTL := o_TTL (object this)\<rparr>\<rparr>
                else this
         | None \<Rightarrow>
             this\<lparr>providername := None,
                  status := (status this)\<lparr>st_Provider := None, st_TTL := None\<rparr>\<rparr>)"

text \<open>
  After \<open>validate\<close>: \<open>if p.provider != nil && spec.GetTTL() != nil\<close>. The specification is
  nil when \<open>complete\<close> failed, and the call on it panics.
\<close>

definition Setup_ttl ::
  "state \<Rightarrow> EntryVersion \<Rightarrow> EntryPremise \<Rightarrow> DNSSpecification option \<Rightarrow> flow option" where
  "Setup_ttl st this p spec =
     (if provider p = None then Some (Continue this st)
      else case spec of
             None \<Rightarrow> Some Panic
           | Some sp \<Rightarrow>
               Option.bind (GetTTL sp) (\<lambda>ttl.
                 Some (Continue (if ttl \<noteq> None then this\<lparr>status := (status this)\<lparr>st_TTL := ttl\<rparr>\<rparr>
                                 else this) st)))"

text \<open>
  The state that the pass derives once the targets are known: from the error handed to
  \<open>Setup\<close>, or else from the zone and the validity of the provider. \<open>*this.status.Message\<close>
  of a nil message and \<open>p.provider.IsValid()\<close> of a nil provider panic.
\<close>

definition Setup_derive ::
  "state \<Rightarrow> EntryVersion \<Rightarrow> EntryPremise \<Rightarrow> string option \<Rightarrow> EntryVersion option" where
  "Setup_derive st this p err =
     (case err of
        Some e \<Rightarrow>
          if st_State (status this) \<noteq> STATE_STALE then
            Some (this\<lparr>status := (status this)
                    \<lparr>st_State :=
                       (if st_State (status this) = STATE_READY \<and>
                           (case provider p of
                              Some pr \<Rightarrow> \<not> p_IsValid (providers_of st pr)
                            | None \<Rightarrow> False)
                        then STATE_STALE else STATE_ERROR),
                     st_Message := Some e\<rparr>\<rparr>)
          else
            (case st_Message (status this) of
               None \<Rightarrow> None
             | Some m \<Rightarrow>
                 if HasPrefix m MSG_PRESERVED then
                   Some (this\<lparr>status := (status this)
                           \<lparr>st_Message := Some (MSG_PRESERVED @ '': '' @ e)\<rparr>\<rparr>)
                 else Some (this\<lparr>status := (status this)\<lparr>st_Message := Some e\<rparr>\<rparr>))
      | None \<Rightarrow>
          if zoneid p = [] then
            Some (this\<lparr>status := (status this)
                    \<lparr>st_State := STATE_ERROR, st_Provider := None,
                     st_Message := Some (''no provider found for '' @ fmt_q (dnsname this))\<rparr>\<rparr>)
          else
            (case provider p of
               None \<Rightarrow> None
             | Some pr \<Rightarrow>
                 if p_IsValid (providers_of st pr) then Some (this\<lparr>valid := True\<rparr>)
                 else
                   Some (this\<lparr>status := (status this)
                           \<lparr>st_State := STATE_STALE,
                            st_Message := Some (''provider ''
                              @ fmt_q (ObjectName_String (p_ObjectName (providers_of st pr)))
                              @ '' not valid'')\<rparr>\<rparr>)))"

text \<open>
  A READY state is given up for PENDING when the generation of the object is not the
  observed generation of its status. (\<open>BaseStatus()\<close> is the address of the status in the
  object and never nil.)
\<close>

definition Setup_generation :: "EntryVersion \<Rightarrow> EntryVersion" where
  "Setup_generation this =
     (if st_State (status this) = STATE_READY \<and>
         o_Generation (object this) \<noteq> st_ObservedGeneration (o_Status (object this))
      then this\<lparr>status := (status this)\<lparr>st_State := STATE_PENDING\<rparr>\<rparr>
      else this)"

text \<open>The part "handle": deletion, or normalization of the targets and the derived state.
  A call of \<open>GetCNameLookupInterval\<close> on a nil specification panics.\<close>

definition Setup_handle ::
  "state \<Rightarrow> EntryVersion \<Rightarrow> EntryPremise \<Rightarrow> string option \<Rightarrow> DNSSpecification option
     \<Rightarrow> Targets \<Rightarrow> string list \<Rightarrow> flow option" where
  "Setup_handle st this p err spec ts ws =
     (if IsDeleting this then
        Some (Continue (this\<lparr>status := (status this)
                          \<lparr>st_State := STATE_DELETING,
                           st_Message := Some ''entry is scheduled to be deleted''\<rparr>,
                        valid := True\<rparr>) st)
      else
        let this = this\<lparr>warnings := ws\<rparr> in
        case normalizeTargets st (object this) ts of
          (ts', multiCName, multiOk, obj') \<Rightarrow>
            let this = this\<lparr>object := obj'\<rparr>;
                derive = (\<lambda>this. case Setup_derive st (this\<lparr>targets := ts'\<rparr>) p err of
                            None \<Rightarrow> Panic
                          | Some this' \<Rightarrow> Continue (Setup_generation this') st)
            in if multiCName then
                 Option.bind (case spec of None \<Rightarrow> Some None
                              | Some sp \<Rightarrow> map_option Some (GetCNameLookupInterval sp)) (\<lambda>r.
                 case r of None \<Rightarrow> Some Panic | Some iv \<Rightarrow>
                   let this = this\<lparr>interval := 600\<rparr>;
                       this = (case iv of
                                 Some v \<Rightarrow> if v > 0 then this\<lparr>interval := v\<rparr> else this
                               | None \<Rightarrow> this)
                   in if length ts' = 0 then
                        let msg = (if \<not> multiOk then ''too many targets''
                                   else ''targets cannot be resolved to any valid IPv4 address'');
                            this = (if \<not> multiOk then this\<lparr>interval := 84600\<rparr> else this);
                            state' = (if st_State (status this) = STATE_READY \<or>
                                         st_State (status this) = STATE_STALE
                                      then STATE_STALE else STATE_INVALID)
                        in case UpdateStatus st this state' msg of
                             (st', this', changed, e) \<Rightarrow>
                               Some (Return (Recheck msg (interval this' * Second)) this' st')
                      else Some (derive this))
               else Some (derive (this\<lparr>interval := 0\<rparr>)))"

text \<open>The closure of the last status update, and the end of \<open>Setup\<close>: for a lock entry
  nothing is written and the error handed to \<open>Setup\<close> decides the result.\<close>

definition Setup_f ::
  "state \<Rightarrow> EntryVersion \<Rightarrow> EntryPremise \<Rightarrow> DNSObject \<Rightarrow> DNSObject \<times> unit \<times> bool \<times> string option" where
  "Setup_f st this p data =
     (let md = (False, data);
          md = (if zoneid p \<noteq> []
                then AssureStatus st_ProviderType (\<lambda>x b. b\<lparr>st_ProviderType := x\<rparr>) md
                       (Some (ptype p))
                else md);
          md = AssureStatus st_State (\<lambda>x b. b\<lparr>st_State := x\<rparr>) md (st_State (status this));
          md = AssureStatus st_Message (\<lambda>x b. b\<lparr>st_Message := x\<rparr>) md (st_Message (status this));
          md = AssureStatus st_Zone (\<lambda>x b. b\<lparr>st_Zone := x\<rparr>) md (st_Zone (status this));
          md = AssureStatus st_Provider (\<lambda>x b. b\<lparr>st_Provider := x\<rparr>) md
                 (st_Provider (status this));
          md = (if fst md
                then (fst md, (snd md)\<lparr>o_Status := SetLastUpdateTime st (o_Status (snd md))\<rparr>)
                else md)
      in (snd md, (), fst md, None))"

definition Setup_persist ::
  "state \<Rightarrow> EntryVersion \<Rightarrow> EntryPremise \<Rightarrow> string option \<Rightarrow> flow" where
  "Setup_persist st this p err =
     (if Kind this \<noteq> DNSLockKind then
        (case ModifyStatus st (object this) (Setup_f st this p) of
           (st', obj', u, changed, err') \<Rightarrow> Return (DelayOnError err') (this\<lparr>object := obj'\<rparr>) st')
      else Return (DelayOnError err) this st)"

definition Setup ::
  "state \<Rightarrow> Config \<Rightarrow> EntryVersion \<Rightarrow> EntryPremise \<Rightarrow> string option \<Rightarrow> flow option" where
  "Setup st config this p err =
     (case Setup_responsibility st config this p err of
        Continue this st \<Rightarrow>
          (let this = Setup_assign st this p in
           case validateOwner st this of
             Some verr \<Rightarrow>
               (case UpdateStatus st this STATE_STALE verr of
                  (st', this', changed, e) \<Rightarrow> Some (Return (Failed verr) this' st'))
           | None \<Rightarrow>
               Option.bind (validate st this p) (\<lambda>v.
                 case v of (st, spec, ts, ws, verr) \<Rightarrow>
                   Option.bind (Setup_ttl st this p spec) (\<lambda>r.
                     case r of
                       Continue this st \<Rightarrow>
                         (case verr of
                            Some ve \<Rightarrow>
                              (case UpdateStatus st this STATE_INVALID ve of
                                 (st', this', changed, e) \<Rightarrow> Some (Return (Failed ve) this' st'))
                          | None \<Rightarrow>
                              Option.bind (Setup_handle st this p err spec ts ws) (\<lambda>h.
                                case h of
                                  Continue this st \<Rightarrow> Some (Setup_persist st this p err)
                                | r \<Rightarrow> Some r))
                     | r \<Rightarrow> Some r)))
      | r \<Rightarrow> Some r)"

section \<open>Example values\<close>

definition fresh_version :: EntryVersion where
  "fresh_version = NewEntryVersion example_object None"

definition ready_version :: EntryVersion where
  "ready_version = NewEntryVersion ready_object None"

definition no_zone_premise :: EntryPremise where
  "no_zone_premise = \<lparr>ptypes = {''aws-route53''}, ptype = [], provider = None,
     fallback = None, zoneid = [], zonedomain = []\<rparr>"

definition grace_config :: Config where
  "grace_config = \<lparr>RescheduleDelay = 2000\<rparr>"

lemma example_state_simps [simp]:
  "time_Now example_state = 1000" "write_errors example_state = []"
  "providers_of example_state = providers0"
  "ValidateDomainName example_state = (\<lambda>n. None)"
  "IsResponsibleFor example_state = (\<lambda>i. True)"
  by (simp_all add: example_state_def)

lemma example_object_simps [simp]:
  "o_Finalizer example_object" "o_CreationTimestamp example_object = 0"
  "o_Status example_object = example_status" "o_Kind example_object = ''DNSEntry''"
  "o_Generation example_object = 1" "o_StatusTargets example_object = None"
  "o_OwnerId example_object = None" "\<not> o_IsDeleting example_object"
  "o_ValidateSpecial example_object = None" "o_DNSName example_object = ''a.example.com''"
  "o_Reference example_object = None" "o_TTL example_object = None"
  "o_Text example_object = None" "o_CNameLookupInterval example_object = None"
  "o_Targets example_object = None" "o_Cluster example_object = ''c''"
  "o_Events example_object = []"
  "o_ObjectName example_object = \<lparr>Namespace = ''default'', Name = ''a''\<rparr>"
  by (simp_all add: example_object_def)

lemma example_status_simps [simp]:
  "st_State example_status = []" "st_ProviderType example_status = None"
  "st_ObservedGeneration example_status = 1" "st_Message example_status = None"
  "st_Zone example_status = None" "st_Provider example_status = None"
  "st_TTL example_status = None" "st_LastUptimeTime example_status = None"
  by (simp_all add: example_status_def)

lemma example_state_fields [simp]:
  "net_ParseIP example_state = (\<lambda>n. if n = ''1.2.3.4'' then Some (IPv4 n) else None)"
  "IsResponsiblePendingFor example_state = (\<lambda>i. False)"
  "references example_state = Map.empty"
  by (simp_all add: example_state_def)

lemma DelRef_fields [simp]:
  "providers_of (DelRef st k) = providers_of st" "time_Now (DelRef st k) = time_Now st"
  "write_errors (DelRef st k) = write_errors st" "net_ParseIP (DelRef st k) = net_ParseIP st"
  "net_LookupIP (DelRef st k) = net_LookupIP st"
  by (simp_all add: DelRef_def)

section \<open>An unassigned entry within the grace period\<close>

lemma RemoveFinalizer_status:
  "RemoveFinalizer st obj = (st', obj', e) \<Longrightarrow>
     obj' = obj\<lparr>o_Finalizer := o_Finalizer obj'\<rparr> \<and>
     (e = None \<longrightarrow> \<not> o_Finalizer obj') \<and>
     (e \<noteq> None \<longrightarrow> obj' = obj) \<and>
     st' = (if o_Finalizer obj then fst (store_write st) else st)"
  by (auto simp: RemoveFinalizer_def split: if_splits prod.splits option.splits)

text \<open>
  C4 (as amended). For an entry whose premise resolves no zone and that has no provider
  type (none in the status of the entry version, and none on the object to take over when
  the premise has no type either): while the creation time plus the reschedule delay is
  still in the future, \<open>Setup\<close> returns \<open>Succeeded\<close> rescheduled after the delay. It writes
  no field of the status, but it does ask the object store to remove the finalizer of the
  object and ignores the outcome: the object afterwards is the object before but for the
  finalizer, which is gone when the removal succeeded. In the entry version only the flags
  \<open>valid\<close> and \<open>responsible\<close> are reset.
\<close>

theorem C4_Setup_grace:
  assumes "zoneid p = []"
    and "IsEmptyString (st_ProviderType (status this))"
    and "IsEmptyString (st_ProviderType (o_Status (object this))) \<or> ptype p \<noteq> []"
    and "time_Now st < o_CreationTimestamp (object this) + RescheduleDelay config"
  shows "\<exists>st' obj' e.
      RemoveFinalizer st (object this) = (st', obj', e) \<and>
      Setup st config this p err =
        Some (Return (RescheduleAfter (RescheduleDelay config))
                (this\<lparr>valid := False, responsible := False, object := obj'\<rparr>) st') \<and>
      obj' = (object this)\<lparr>o_Finalizer := o_Finalizer obj'\<rparr> \<and>
      (e = None \<longrightarrow> \<not> o_Finalizer obj')"
proof -
  obtain st' obj' e where rf: "RemoveFinalizer st (object this) = (st', obj', e)"
    by (cases "RemoveFinalizer st (object this)") auto
  have a: "Setup_adopt this p = this\<lparr>valid := False, responsible := False\<rparr>"
    using assms(3) by (auto simp: Setup_adopt_def)
  have "Setup_unassigned st config (this\<lparr>valid := False, responsible := False\<rparr>) p err =
      Return (RescheduleAfter (RescheduleDelay config))
        (this\<lparr>valid := False, responsible := False, object := obj'\<rparr>) st'"
    using assms rf by (simp add: Setup_unassigned_def)
  then show ?thesis
    using rf RemoveFinalizer_status [OF rf] by (simp add: Setup_def Setup_responsibility_def a)
qed

theorem C4_Setup_grace_witness:
  "zoneid no_zone_premise = [] \<and> IsEmptyString (st_ProviderType (status fresh_version)) \<and>
   IsEmptyString (st_ProviderType (o_Status (object fresh_version))) \<and>
   time_Now example_state
     < o_CreationTimestamp (object fresh_version) + RescheduleDelay grace_config \<and>
   Setup example_state grace_config fresh_version no_zone_premise (Some ''no provider'') =
     Some (Return (RescheduleAfter 2000)
             (fresh_version\<lparr>object := example_object\<lparr>o_Finalizer := False\<rparr>\<rparr>) example_state)"
  using C4_Setup_grace [of no_zone_premise fresh_version example_state grace_config
      "Some ''no provider''"]
  by (simp add: RemoveFinalizer_def store_write_def fresh_version_def NewEntryVersion_def
      no_zone_premise_def grace_config_def IsEmptyString_def)

text \<open>
  The claim as stated fails twice. The entry \<open>fresh_version\<close>, within the grace period,
  loses its finalizer. And the entry \<open>ready_version\<close>, whose provider type is assigned and
  differs from the empty type of the premise, is not rescheduled although it is within
  the grace period: its assignment is revoked, which writes the status, and its
  finalizer is removed.
\<close>

theorem C4_Setup_grace_counterexample:
  "zoneid no_zone_premise = [] \<and> IsEmptyString (st_ProviderType (status fresh_version)) \<and>
   time_Now example_state
     < o_CreationTimestamp (object fresh_version) + RescheduleDelay grace_config \<and>
   o_Finalizer (object fresh_version) \<and>
   Setup example_state grace_config fresh_version no_zone_premise None =
     Some (Return (RescheduleAfter 2000)
             (fresh_version\<lparr>object := example_object\<lparr>o_Finalizer := False\<rparr>\<rparr>) example_state) \<and>
   st_ProviderType (status ready_version) = Some ''aws-route53'' \<and>
   st_State (o_Status (object ready_version)) = ''Ready'' \<and>
   time_Now example_state
     < o_CreationTimestamp (object ready_version) + RescheduleDelay grace_config \<and>
   (case Setup example_state grace_config ready_version no_zone_premise None of
      Some (Return s v st) \<Rightarrow>
        s = Succeeded \<and> st_State (o_Status (object v)) = [] \<and>
        st_ProviderType (o_Status (object v)) = None \<and> \<not> o_Finalizer (object v)
    | Some (Continue v st) \<Rightarrow> False | Some Panic \<Rightarrow> False | None \<Rightarrow> False)"
proof -
  have 1: "Setup example_state grace_config fresh_version no_zone_premise None =
     Some (Return (RescheduleAfter 2000)
             (fresh_version\<lparr>object := example_object\<lparr>o_Finalizer := False\<rparr>\<rparr>) example_state)"
    by (simp add: Setup_def Setup_responsibility_def Setup_adopt_def Setup_unassigned_def
      RemoveFinalizer_def store_write_def fresh_version_def NewEntryVersion_def
      no_zone_premise_def grace_config_def IsEmptyString_def)
  have 2: "case Setup example_state grace_config ready_version no_zone_premise None of
      Some (Return s v st) \<Rightarrow>
        s = Succeeded \<and> st_State (o_Status (object v)) = [] \<and>
        st_ProviderType (o_Status (object v)) = None \<and> \<not> o_Finalizer (object v)
    | Some (Continue v st) \<Rightarrow> False | Some Panic \<Rightarrow> False | None \<Rightarrow> False"
    by (simp add: Setup_def Setup_responsibility_def Setup_adopt_def Setup_unassigned_def
      Setup_revoke_def Setup_release_def updateStatus_def updateStatus_f_def ModifyStatus_def
      AssureStatus_def AcknowledgeTargets_def Event_def RepeatOnError_def
      RemoveFinalizer_def store_write_def ready_version_def ready_object_def
      NewEntryVersion_def no_zone_premise_def grace_config_def IsEmptyString_def
      StringValue_def Let_def)
  show ?thesis
    using 1 2
    by (simp add: fresh_version_def ready_version_def ready_object_def NewEntryVersion_def
        no_zone_premise_def grace_config_def IsEmptyString_def)
qed

section \<open>Validation: duplicate targets\<close>








lemma validate_text_Nil: "validate_text entry [] ts ws n = (ts, ws, n)"
  by simp


lemma complete_no_reference:
  "o_Reference obj = None \<Longrightarrow>
   complete st (DNSEntryObject obj) obj pre = Some (DelRef st (ClusterKey obj), Inr (DNSEntryObject obj))"
  by (subst complete.simps) simp







section \<open>Validation: targets and text\<close>

lemma validate_text_all_empty:
  assumes "\<forall>x \<in> set xs. x = []"
  shows "\<exists>ws'. validate_text entry xs ts ws n = (ts, ws @ ws', n) \<and> length ws' = length xs"
  using assms
proof (induction xs arbitrary: ws)
  case Nil
  then show ?case by simp
next
  case (Cons x xs)
  define w where
    "w = ''dns entry '' @ fmt_q (ObjectName_String (ObjectName_of entry)) @ '' has empty text''"
  have x: "x = []" and rest: "\<forall>x \<in> set xs. x = []"
    using Cons.prems by simp_all
  obtain ws' where ws':
    "validate_text entry xs ts (ws @ [w]) n = (ts, (ws @ [w]) @ ws', n)" "length ws' = length xs"
    using Cons.IH [OF rest, of "ws @ [w]"] by blast
  have "validate_text entry (x # xs) ts ws n = validate_text entry xs ts (ws @ [w]) n"
    unfolding x w_def by simp
  then have "validate_text entry (x # xs) ts ws n = (ts, ws @ (w # ws'), n) \<and>
      length (w # ws') = length (x # xs)"
    using ws' by simp
  then show ?case by blast
qed

lemma validate_both_error:
  assumes "complete st (DNSEntryObject (object entry)) (object entry) [] = Some (st', Inr effspec)"
    and "0 < len (GetTargets effspec)" "0 < len (GetText effspec)"
  shows "\<exists>st2 spec ts ws e. validate st entry p = Some (st2, spec, ts, ws, Some e)"
proof (cases "ValidateDomainName st (o_DNSName (object entry))")
  case (Some e)
  then show ?thesis by (simp add: validate_def)
next
  case None
  note n = None
  show ?thesis
  proof (cases "o_ValidateSpecial (object entry)")
    case (Some e)
    then show ?thesis using n by (simp add: validate_def)
  next
    case None
    then show ?thesis
      using n assms by (cases "zonedomain p = dnsname entry") (simp_all add: validate_def)
  qed
qed

lemma validate_after_complete:
  assumes "ValidateDomainName st (o_DNSName (object entry)) = None"
    "o_ValidateSpecial (object entry) = None"
    "complete st (DNSEntryObject (object entry)) (object entry) [] = Some (st', Inr effspec)"
    "zonedomain p \<noteq> dnsname entry"
    "len (GetTargets effspec) = 0"
    "GetTTL effspec = Some ttl" "\<forall>v. ttl = Some v \<longrightarrow> 0 < v"
  shows "validate st entry p =
     (case validate_text entry (elems (GetText effspec)) [] [] 0 of
        (ts, ws, tcnt) \<Rightarrow>
          if len (GetText effspec) > 0 \<and> tcnt = 0 then
            Some (st', Some effspec, ts, ws, Some ''dns entry has only empty text'')
          else if length ts = 0 then
            Some (st', Some effspec, ts, ws, Some ''no target or text specified'')
          else Some (st', Some effspec, ts, ws, None))"
proof -
  have e: "elems (GetTargets effspec) = []"
    using assms(5) by (simp add: len_def elems_def split: option.splits)
  have t: "\<not> (case ttl of None \<Rightarrow> False | Some v \<Rightarrow> v = 0 \<or> v < 0)"
    using assms(7) by (cases ttl) simp_all
  show ?thesis
    using assms(1-6) e t by (simp add: validate_def)
qed

text \<open>
  C6 (as amended). Let reference completion return the effective specification. When its
  target list and its text list are both non-empty, validation fails with an error. When
  the checks before the loops pass (valid domain name, the object's own validation, the
  name differs from the domain of the zone, the TTL is returned and is unset or
  positive): with the target list and the text list both empty, validation fails with
  "no target or text specified"; with no targets and a non-empty text list of empty
  strings only, no effective target remains either, and validation fails with
  "dns entry has only empty text", after one warning for each text value.
\<close>

theorem C6_validate_targets_text:
  assumes "complete st (DNSEntryObject (object entry)) (object entry) [] = Some (st', Inr effspec)"
  shows "(0 < len (GetTargets effspec) \<and> 0 < len (GetText effspec) \<longrightarrow>
            (\<exists>st2 spec ts ws e. validate st entry p = Some (st2, spec, ts, ws, Some e))) \<and>
         (ValidateDomainName st (o_DNSName (object entry)) = None \<and>
          o_ValidateSpecial (object entry) = None \<and> zonedomain p \<noteq> dnsname entry \<and>
          (\<exists>ttl. GetTTL effspec = Some ttl \<and> (\<forall>v. ttl = Some v \<longrightarrow> 0 < v)) \<longrightarrow>
            (len (GetTargets effspec) = 0 \<and> len (GetText effspec) = 0 \<longrightarrow>
               validate st entry p =
                 Some (st', Some effspec, [], [], Some ''no target or text specified'')) \<and>
            (len (GetTargets effspec) = 0 \<and> 0 < len (GetText effspec) \<and>
             (\<forall>x \<in> set (elems (GetText effspec)). x = []) \<longrightarrow>
               (\<exists>ws. length ws = len (GetText effspec) \<and>
                  validate st entry p =
                    Some (st', Some effspec, [], ws, Some ''dns entry has only empty text''))))"
proof (intro conjI impI)
  assume "0 < len (GetTargets effspec) \<and> 0 < len (GetText effspec)"
  then show "\<exists>st2 spec ts ws e. validate st entry p = Some (st2, spec, ts, ws, Some e)"
    using validate_both_error [OF assms] by blast
next
  assume pre: "ValidateDomainName st (o_DNSName (object entry)) = None \<and>
          o_ValidateSpecial (object entry) = None \<and> zonedomain p \<noteq> dnsname entry \<and>
          (\<exists>ttl. GetTTL effspec = Some ttl \<and> (\<forall>v. ttl = Some v \<longrightarrow> 0 < v))"
  then obtain ttl where ttl: "GetTTL effspec = Some ttl" "\<forall>v. ttl = Some v \<longrightarrow> 0 < v"
    by blast
  assume none: "len (GetTargets effspec) = 0 \<and> len (GetText effspec) = 0"
  then have e: "elems (GetText effspec) = []"
    by (simp add: len_def elems_def split: option.splits)
  have "validate st entry p =
     (case validate_text entry (elems (GetText effspec)) [] [] 0 of
        (ts, ws, tcnt) \<Rightarrow>
          if len (GetText effspec) > 0 \<and> tcnt = 0 then
            Some (st', Some effspec, ts, ws, Some ''dns entry has only empty text'')
          else if length ts = 0 then
            Some (st', Some effspec, ts, ws, Some ''no target or text specified'')
          else Some (st', Some effspec, ts, ws, None))"
    by (rule validate_after_complete [OF _ _ assms _ _ ttl]) (use pre none in simp_all)
  then show "validate st entry p =
      Some (st', Some effspec, [], [], Some ''no target or text specified'')"
    using none e by simp
next
  assume pre: "ValidateDomainName st (o_DNSName (object entry)) = None \<and>
          o_ValidateSpecial (object entry) = None \<and> zonedomain p \<noteq> dnsname entry \<and>
          (\<exists>ttl. GetTTL effspec = Some ttl \<and> (\<forall>v. ttl = Some v \<longrightarrow> 0 < v))"
  then obtain ttl where ttl: "GetTTL effspec = Some ttl" "\<forall>v. ttl = Some v \<longrightarrow> 0 < v"
    by blast
  assume only: "len (GetTargets effspec) = 0 \<and> 0 < len (GetText effspec) \<and>
             (\<forall>x \<in> set (elems (GetText effspec)). x = [])"
  then obtain ws where ws:
    "validate_text entry (elems (GetText effspec)) [] [] 0 = ([], [] @ ws, 0)"
    "length ws = length (elems (GetText effspec))"
    using validate_text_all_empty [of "elems (GetText effspec)" entry "[]" "[]" 0] by blast
  have l: "length (elems (GetText effspec)) = len (GetText effspec)"
    by (simp add: len_def elems_def split: option.splits)
  have "validate st entry p =
     (case validate_text entry (elems (GetText effspec)) [] [] 0 of
        (ts, ws, tcnt) \<Rightarrow>
          if len (GetText effspec) > 0 \<and> tcnt = 0 then
            Some (st', Some effspec, ts, ws, Some ''dns entry has only empty text'')
          else if length ts = 0 then
            Some (st', Some effspec, ts, ws, Some ''no target or text specified'')
          else Some (st', Some effspec, ts, ws, None))"
    by (rule validate_after_complete [OF _ _ assms _ _ ttl]) (use pre only in simp_all)
  then have "validate st entry p =
      Some (st', Some effspec, [], ws, Some ''dns entry has only empty text'')"
    using only ws(1) by simp
  then show "\<exists>ws. length ws = len (GetText effspec) \<and>
      validate st entry p = Some (st', Some effspec, [], ws, Some ''dns entry has only empty text'')"
    using ws(2) l by auto
qed

definition both_object :: DNSObject where
  "both_object = example_object\<lparr>o_Targets := Some [''1.2.3.4''], o_Text := Some [''x'']\<rparr>"

definition empty_text_object :: DNSObject where
  "empty_text_object = example_object\<lparr>o_Text := Some [[]]\<rparr>"

theorem C6_validate_targets_text_witness:
  "complete example_state (DNSEntryObject (object (NewEntryVersion both_object None)))
     (object (NewEntryVersion both_object None)) [] =
     Some (DelRef example_state (ClusterKey both_object), Inr (DNSEntryObject both_object)) \<and>
   validate example_state (NewEntryVersion both_object None) premise_a =
     Some (DelRef example_state (ClusterKey both_object), Some (DNSEntryObject both_object),
           [], [], Some ''only Text or Targets possible: %!s(<nil>)'') \<and>
   validate example_state (NewEntryVersion example_object None) premise_a =
     Some (DelRef example_state (ClusterKey example_object), Some (DNSEntryObject example_object),
           [], [], Some ''no target or text specified'')"
proof -
  have c: "complete example_state (DNSEntryObject (object (NewEntryVersion both_object None)))
     (object (NewEntryVersion both_object None)) [] =
     Some (DelRef example_state (ClusterKey both_object), Inr (DNSEntryObject both_object))"
    using complete_no_reference [of both_object example_state "[]"]
    by (simp add: NewEntryVersion_def both_object_def)
  have c': "complete example_state (DNSEntryObject (object (NewEntryVersion example_object None)))
     (object (NewEntryVersion example_object None)) [] =
     Some (DelRef example_state (ClusterKey example_object), Inr (DNSEntryObject example_object))"
    using complete_no_reference [of example_object example_state "[]"]
    by (simp add: NewEntryVersion_def)
  have 1: "validate example_state (NewEntryVersion both_object None) premise_a =
     Some (DelRef example_state (ClusterKey both_object), Some (DNSEntryObject both_object),
           [], [], Some ''only Text or Targets possible: %!s(<nil>)'')"
    using c
    by (simp add: validate_def NewEntryVersion_def both_object_def premise_a_def len_def)
  have 2: "validate example_state (NewEntryVersion example_object None) premise_a =
     Some (DelRef example_state (ClusterKey example_object), Some (DNSEntryObject example_object),
           [], [], Some ''no target or text specified'')"
    using C6_validate_targets_text [OF c', of premise_a]
    by (simp add: NewEntryVersion_def premise_a_def len_def)
  show ?thesis
    using c 1 2 by simp
qed

text \<open>
  The claim as stated fails for a text list of one empty string: no effective target
  remains, there is neither a target nor a non-empty text, and the error is not
  "no target or text specified".
\<close>

theorem C6_validate_targets_text_counterexample:
  "o_Targets empty_text_object = None \<and> o_Text empty_text_object = Some [[]] \<and>
   validate example_state (NewEntryVersion empty_text_object None) premise_a =
     Some (DelRef example_state (ClusterKey empty_text_object),
           Some (DNSEntryObject empty_text_object), [],
           [''dns entry '' @ fmt_q ''default/a'' @ '' has empty text''],
           Some ''dns entry has only empty text'')"
proof -
  have c: "complete example_state (DNSEntryObject empty_text_object) empty_text_object [] =
      Some (DelRef example_state (ClusterKey empty_text_object),
            Inr (DNSEntryObject empty_text_object))"
    by (rule complete_no_reference) (simp add: empty_text_object_def)
  show ?thesis
    using c
    by (simp add: validate_def NewEntryVersion_def empty_text_object_def premise_a_def len_def
        elems_def fmt_q_def ObjectName_String_def ObjectName_of_def example_object_def Let_def)
qed

section \<open>Updating an entry\<close>

text \<open>
  \<open>Update\<close> returns a pointer to an \<open>Entry\<close> and changes the entry in place, so entries
  live in a store: \<open>h_entries\<close> maps the address of an entry to the entry, \<open>h_next\<close> is
  the next address to allocate and \<open>h_next_lock\<close> the address of the next lock that
  \<open>NewTryLock\<close> creates.
\<close>

record heap =
  h_entries :: "nat \<rightharpoonup> Entry"
  h_next :: nat
  h_next_lock :: nat

text \<open>The allocator is ahead of every entry and lock in use.\<close>

definition heap_ok :: "heap \<Rightarrow> bool" where
  "heap_ok h \<longleftrightarrow> (\<forall>a e. h_entries h a = Some e \<longrightarrow> a < h_next h \<and> lock e < h_next_lock h)"

definition NewEntry :: "state \<Rightarrow> heap \<Rightarrow> EntryVersion \<Rightarrow> nat \<times> heap" where
  "NewEntry st h v =
     (let a = h_next h;
          l = h_next_lock h;
          e = \<lparr>lock = l, key = ObjectName_String (ObjectName_of v), createdAt = time_Now st,
               modified = True, updateRequired = False,
               activezone = StringValue (st_Zone (status v)), EntryVersion = v\<rparr>
      in (a, h\<lparr>h_entries := (h_entries h)(a \<mapsto> e), h_next := a + 1, h_next_lock := l + 1\<rparr>))"

text \<open>Modelled from the spec: two target lists differ when their lengths differ or a
  target of the first is not among the second (targets compared by value).\<close>

definition DifferFrom :: "Targets \<Rightarrow> Targets \<Rightarrow> bool" where
  "DifferFrom this ts \<longleftrightarrow> length this \<noteq> length ts \<or> (\<exists>t \<in> set this. \<not> Has ts t)"

definition RequiresUpdateFor :: "EntryVersion \<Rightarrow> EntryVersion \<Rightarrow> string list \<times> bool" where
  "RequiresUpdateFor this e =
     (let reasons = [];
          reasons = (if dnsname this \<noteq> dnsname e then reasons @ [''dnsname changed''] else reasons);
          reasons = (if st_TTL (status this) \<noteq> st_TTL (status e)
                     then reasons @ [''ttl changed''] else reasons);
          reasons = (if valid this \<noteq> valid e
                     then reasons @ [''validation state changed''] else reasons);
          reasons = (if ZoneId this \<noteq> ZoneId e then reasons @ [''zone changed''] else reasons);
          reasons = (if OwnerId this \<noteq> OwnerId e then reasons @ [''ownerid changed''] else reasons);
          reasons = (if DifferFrom (targets this) (targets e)
                     then reasons @ [''targets changed''] else reasons);
          reasons = (if State this \<noteq> State e \<and> State e \<noteq> STATE_READY
                     then reasons @ [''state changed''] else reasons);
          reasons = (if obsolete this \<noteq> obsolete e
                     then reasons @ [''provider responsibility changed''] else reasons)
      in if o_RefreshTime (object this) < o_RefreshTime (object e)
         then (reasons @ [''refresh time changed''], True)
         else (reasons, False))"

text \<open>\<open>%v\<close> of a list of strings.\<close>

definition fmt_v :: "string list \<Rightarrow> string" where
  "fmt_v l = ''['' @ Join l '' '' @ '']''"

text \<open>What \<open>Update\<close> assigns to the entry when it keeps it, and the events it emits
  on the object of the entry then.\<close>

definition Update_install :: "Entry \<Rightarrow> EntryVersion \<Rightarrow> Entry" where
  "Update_install this new =
     (let reasons = fst (RequiresUpdateFor (EntryVersion this) new);
          this = (if length reasons \<noteq> 0 then this\<lparr>modified := True\<rparr> else this);
          this = this\<lparr>EntryVersion := new\<rparr>
      in if valid new \<and> st_State (status (EntryVersion this)) = STATE_STALE
         then this\<lparr>modified := True\<rparr> else this)"

definition Update_events :: "Entry \<Rightarrow> EntryVersion \<Rightarrow> event list" where
  "Update_events this new =
     (let reasons = fst (RequiresUpdateFor (EntryVersion this) new)
      in if length reasons \<noteq> 0 \<and> DifferFrom (targets (EntryVersion this)) (targets new) \<and>
            \<not> IsDeleting new
         then map (\<lambda>w. (''Normal'', ''reconcile'', w)) (warnings new) @
              map (\<lambda>m. (''Normal'', ''dnslookup'',
                         ''mapping cname '' @ fmt_q (fst m) @ '' to '' @ fmt_v (snd m)))
                (mappings new)
         else [])"

text \<open>\<open>Update\<close> of the entry at address \<open>a\<close>: the address returned, the store and the
  events. (\<open>None\<close>: \<open>a\<close> is not the address of an entry, which a pointer held by the
  program always is.)\<close>

definition Update ::
  "state \<Rightarrow> heap \<Rightarrow> nat \<Rightarrow> EntryVersion \<Rightarrow> (nat \<times> heap \<times> event list) option" where
  "Update st h a new =
     (case h_entries h a of
        None \<Rightarrow> None
      | Some this \<Rightarrow>
          if ZonedDNSName (EntryVersion this) \<noteq> ZonedDNSName new then
            (case NewEntry st h new of (a', h') \<Rightarrow> Some (a', h', []))
          else
            Some (a, h\<lparr>h_entries := (h_entries h)(a \<mapsto> Update_install this new)\<rparr>,
                  Update_events this new))"

lemma Update_install_fields:
  "EntryVersion (Update_install this new) = new" "key (Update_install this new) = key this"
  "lock (Update_install this new) = lock this"
  "createdAt (Update_install this new) = createdAt this"
  "activezone (Update_install this new) = activezone this"
  by (simp_all add: Update_install_def Let_def)

lemma Update_same:
  assumes "h_entries h a = Some this" "ZonedDNSName (EntryVersion this) = ZonedDNSName new"
  shows "Update st h a new =
           Some (a, h\<lparr>h_entries := (h_entries h)(a \<mapsto> Update_install this new)\<rparr>,
                 Update_events this new)"
  using assms by (simp add: Update_def)

lemma Update_other:
  assumes "h_entries h a = Some this" "ZonedDNSName (EntryVersion this) \<noteq> ZonedDNSName new"
  shows "Update st h a new = Some (fst (NewEntry st h new), snd (NewEntry st h new), [])"
  using assms by (simp add: Update_def split: prod.splits)

text \<open>
  C9. \<open>Update\<close> of an entry with a new entry version: when the zoned DNS name of the new
  version is that of the current one, the result is the same entry (the same address),
  which now holds the new version and has its key, lock and creation time as before, and
  no other entry is touched. When the zoned DNS name differs, the result is an entry at
  an address that was not in use, holding the new version, with the key of the new
  version's object name and a lock that no entry had, and every entry that existed is as
  it was, the old entry with its key among them.
\<close>

theorem C9_Entry_Update:
  assumes "heap_ok h" "h_entries h a = Some this"
  shows "\<exists>a' h' evs. Update st h a new = Some (a', h', evs) \<and> heap_ok h' \<and>
     (if ZonedDNSName (EntryVersion this) = ZonedDNSName new
      then a' = a \<and>
           (\<exists>this'. h_entries h' a = Some this' \<and> EntryVersion this' = new \<and>
              key this' = key this \<and> lock this' = lock this \<and>
              createdAt this' = createdAt this) \<and>
           (\<forall>b. b \<noteq> a \<longrightarrow> h_entries h' b = h_entries h b)
      else a' \<noteq> a \<and> h_entries h a' = None \<and>
           (\<exists>e. h_entries h' a' = Some e \<and> EntryVersion e = new \<and>
              key e = ObjectName_String (ObjectName_of new) \<and> createdAt e = time_Now st \<and>
              (\<forall>b e'. h_entries h b = Some e' \<longrightarrow> lock e' \<noteq> lock e)) \<and>
           (\<forall>b. b \<noteq> a' \<longrightarrow> h_entries h' b = h_entries h b) \<and>
           h_entries h' a = Some this)"
proof (cases "ZonedDNSName (EntryVersion this) = ZonedDNSName new")
  case True
  have "heap_ok (h\<lparr>h_entries := (h_entries h)(a \<mapsto> Update_install this new)\<rparr>)"
    using assms by (auto simp: heap_ok_def Update_install_fields)
  then show ?thesis
    using Update_same [OF assms(2) True, of st] True by (simp add: Update_install_fields)
next
  case False
  have fresh: "h_entries h (h_next h) = None"
    using assms(1) by (cases "h_entries h (h_next h)") (auto simp: heap_ok_def)
  have ne: "h_next h \<noteq> a"
    using fresh assms(2) by auto
  have locks: "\<forall>b e'. h_entries h b = Some e' \<longrightarrow> lock e' \<noteq> h_next_lock h"
    using assms(1) by (fastforce simp: heap_ok_def)
  have ok: "heap_ok (snd (NewEntry st h new))"
    using assms(1) by (auto simp: heap_ok_def NewEntry_def Let_def less_Suc_eq)
  show ?thesis
    using Update_other [OF assms(2) False, of st] False fresh ne locks ok assms(2)
    by (simp add: NewEntry_def Let_def)
qed

definition example_heap :: heap where
  "example_heap = \<lparr>h_entries = [0 \<mapsto> example_entry], h_next = 1, h_next_lock = 2\<rparr>"

theorem C9_Entry_Update_witness:
  "heap_ok example_heap \<and> h_entries example_heap 0 = Some example_entry \<and>
   ZonedDNSName (EntryVersion example_entry) \<noteq> ZonedDNSName ready_version \<and>
   Update example_state example_heap 0 ready_version =
     Some (1, example_heap\<lparr>h_entries := (h_entries example_heap)
                (1 \<mapsto> \<lparr>lock = 2, key = ''default/a'', createdAt = 1000, modified = True,
                        updateRequired = False, activezone = ''Z1'',
                        EntryVersion = ready_version\<rparr>),
              h_next := 2, h_next_lock := 3\<rparr>, []) \<and>
   map_option fst (Update example_state example_heap 0 (EntryVersion example_entry)) = Some 0"
proof -
  have ok: "heap_ok example_heap"
    by (simp add: heap_ok_def example_heap_def example_entry_def)
  have e: "h_entries example_heap 0 = Some example_entry"
    by (simp add: example_heap_def)
  have z: "ZonedDNSName (EntryVersion example_entry) \<noteq> ZonedDNSName ready_version"
    by (simp add: ZonedDNSName_def ZoneId_def StringValue_def example_entry_def
        ready_version_def NewEntryVersion_def object_b_def ready_object_def)
  have n: "NewEntry example_state example_heap ready_version =
     (1, example_heap\<lparr>h_entries := (h_entries example_heap)
                (1 \<mapsto> \<lparr>lock = 2, key = ''default/a'', createdAt = 1000, modified = True,
                        updateRequired = False, activezone = ''Z1'',
                        EntryVersion = ready_version\<rparr>),
              h_next := 2, h_next_lock := 3\<rparr>)"
    by (simp add: NewEntry_def Let_def example_heap_def ObjectName_String_def ObjectName_of_def
        StringValue_def ready_version_def NewEntryVersion_def ready_object_def)
  show ?thesis
    using C9_Entry_Update [OF ok e, of example_state ready_version]
      C9_Entry_Update [OF ok e, of example_state "EntryVersion example_entry"] ok e z n
    by (auto simp: Update_def)
qed

section \<open>The parts of Setup\<close>

lemma STATE_distinct [simp]:
  "STATE_READY \<noteq> STATE_PENDING" "STATE_READY \<noteq> STATE_STALE" "STATE_READY \<noteq> STATE_INVALID"
  "STATE_READY \<noteq> STATE_ERROR" "STATE_READY \<noteq> STATE_DELETING"
  "STATE_STALE \<noteq> STATE_PENDING" "STATE_INVALID \<noteq> STATE_PENDING"
  "STATE_PENDING \<noteq> STATE_READY" "STATE_STALE \<noteq> STATE_READY" "STATE_INVALID \<noteq> STATE_READY"
  "STATE_ERROR \<noteq> STATE_READY" "STATE_DELETING \<noteq> STATE_READY"
  "STATE_PENDING \<noteq> STATE_STALE" "STATE_PENDING \<noteq> STATE_INVALID"
  "STATE_STALE \<noteq> STATE_INVALID" "STATE_INVALID \<noteq> STATE_STALE"
  by (simp_all add: STATE_defs)

lemma updateStatus_version:
  "updateStatus st this state' msg = (st', this', e) \<Longrightarrow>
     \<exists>obj'. this' = this\<lparr>object := obj'\<rparr>"
  by (auto simp: updateStatus_def split: prod.splits)




lemma Setup_unassigned_not_Panic:
  "Setup_unassigned st config this p err \<noteq> Panic"
  by (auto simp: Setup_unassigned_def Let_def split: if_splits prod.splits option.splits)

lemma Setup_revoke_cases:
  "Setup_revoke st this p \<noteq> Panic"
  "Setup_revoke st this p = Return s this' st' \<Longrightarrow> responsible this' = responsible this"
  "Setup_revoke st this p = Continue this' st' \<Longrightarrow> responsible this' = responsible this"
  "zoneid p \<noteq> [] \<Longrightarrow> Setup_revoke st this p = Continue this st"
  by (auto simp: Setup_revoke_def Let_def split: if_splits prod.splits option.splits
      dest: updateStatus_version)

lemma Setup_release_cases:
  "Setup_release st this p \<noteq> Panic"
  "Setup_release st this p = Return s this' st' \<Longrightarrow> responsible this' = responsible this"
  "Setup_release st this p = Continue this' st' \<Longrightarrow>
     this' = this \<and> st' = st \<and> zoneid p \<noteq> [] \<and> ptype p \<noteq> []"
  by (auto simp: Setup_release_def split: if_splits prod.splits)


lemma Setup_responsibility_not_Panic:
  "Setup_responsibility st config this p err \<noteq> Panic"
  using Setup_unassigned_not_Panic [of st config "Setup_adopt this p" p err]
    Setup_revoke_cases(1) Setup_release_cases(1)
  by (auto simp: Setup_responsibility_def split: flow.splits)























section \<open>The state derived by Setup\<close>















section \<open>Too many targets\<close>

















end
